theory Spec2Isabelle
  imports Complex_Main "HOL-Library.Word"
begin

unbundle bit_operations_syntax

section \<open>Byte streams and outcomes\<close>

text \<open>
  A binary file opened for reading is the list of bytes not yet consumed: the codecs read
  strictly forwards and never seek.  A Python call either returns, raises, or (for the
  loop of \<open>read_str\<close>) never returns.
\<close>

type_synonym byte = "8 word"
type_synonym stream = "byte list"

text \<open>Python strings are sequences of Unicode code points.\<close>

type_synonym pystr = "nat list"

text \<open>
  A single-precision value, as \<open>struct.unpack("<f", ...)\<close> delivers it and as
  \<open>mathutils\<close> stores vector components: its IEEE-754 binary32 bit pattern.
\<close>

type_synonym f32 = "32 word"

datatype error =
    StructError
  | UnicodeDecodeError
  | UnicodeEncodeError
  | RoseParseError
  | UnboundLocalError
  | IndexError

datatype 'a outcome = Returns 'a | Raises error | Hangs

definition obind :: "'a outcome \<Rightarrow> ('a \<Rightarrow> 'b outcome) \<Rightarrow> 'b outcome" where
  "obind m k = (case m of Returns x \<Rightarrow> k x | Raises e \<Rightarrow> Raises e | Hangs \<Rightarrow> Hangs)"

text \<open>
  The library code the repository calls but does not contain: Python's EUC-KR codec
  (\<open>bytes.decode\<close>, \<open>bytes(..., "EUC-KR")\<close>, \<open>None\<close> where the codec raises),
  the component-wise \<open>Vector / 100\<close> of \<open>mathutils\<close>, and Python's float division
  \<open>x / 100\<close> of an unpacked single-precision value, stored back in single precision.
\<close>

record pylib =
  euckr_decode :: "byte list \<Rightarrow> pystr option"
  euckr_encode :: "pystr \<Rightarrow> byte list option"
  vector_div100 :: "f32 \<Rightarrow> f32"
  float_div100 :: "f32 \<Rightarrow> f32"

text \<open>\<open>f.read(n)\<close>: up to \<open>n\<close> bytes, fewer at the end of the file; all of it for negative \<open>n\<close>.\<close>

definition read :: "stream \<Rightarrow> int \<Rightarrow> byte list \<times> stream" where
  "read f n = (if n < 0 then (f, []) else (take (nat n) f, drop (nat n) f))"

section \<open>utils.py\<close>

text \<open>Little-endian byte strings as unsigned integers, and back.\<close>

fun le_uint :: "byte list \<Rightarrow> int" where
  "le_uint [] = 0"
| "le_uint (b # bs) = uint b + 256 * le_uint bs"

fun le_bytes :: "nat \<Rightarrow> int \<Rightarrow> byte list" where
  "le_bytes 0 v = []"
| "le_bytes (Suc n) v = word_of_int (v mod 256) # le_bytes n (v div 256)"

definition signed_of :: "nat \<Rightarrow> int \<Rightarrow> int" where
  "signed_of bits u = (if u < 2 ^ (bits - 1) then u else u - 2 ^ bits)"

text \<open>\<open>struct.unpack\<close> raises \<open>struct.error\<close> on a buffer of the wrong length.\<close>

definition read_i16 :: "stream \<Rightarrow> (int \<times> stream) outcome" where
  "read_i16 f = (let (bs, f') = read f 2 in
     if length bs \<noteq> 2 then Raises StructError
     else Returns (signed_of 16 (le_uint bs), f'))"

definition read_f32 :: "stream \<Rightarrow> (f32 \<times> stream) outcome" where
  "read_f32 f = (let (bs, f') = read f 4 in
     if length bs \<noteq> 4 then Raises StructError
     else Returns (word_of_int (le_uint bs), f'))"

definition read_i32 :: "stream \<Rightarrow> (int \<times> stream) outcome" where
  "read_i32 f = (let (bs, f') = read f 4 in
     if length bs \<noteq> 4 then Raises StructError
     else Returns (signed_of 32 (le_uint bs), f'))"

definition decode :: "pylib \<Rightarrow> byte list \<Rightarrow> pystr outcome" where
  "decode L bs = (case euckr_decode L bs of
       None \<Rightarrow> Raises UnicodeDecodeError
     | Some s \<Rightarrow> Returns s)"

definition read_fstr :: "pylib \<Rightarrow> stream \<Rightarrow> int \<Rightarrow> (pystr \<times> stream) outcome" where
  "read_fstr L f n = (let (bs, f') = read f n in
     obind (decode L bs) (\<lambda>s. Returns (s, f')))"

text \<open>
  The loop of \<open>read_str\<close>.  At the end of the file \<open>f.read(1)\<close> is the empty byte
  string, which is not \<open>b"\x00"\<close>, so the loop goes on; \<open>None\<close> is the loop that never
  ends.
\<close>

partial_function (option) read_str_loop :: "stream \<Rightarrow> byte list \<Rightarrow> (byte list \<times> stream) option" where
  "read_str_loop f bstring =
     (let byte = fst (read f 1); f' = snd (read f 1) in
      if byte = [0] then Some (bstring, f')
      else read_str_loop f' (bstring @ byte))"

definition read_str :: "pylib \<Rightarrow> stream \<Rightarrow> (pystr \<times> stream) outcome" where
  "read_str L f = (case read_str_loop f [] of
       None \<Rightarrow> Hangs
     | Some (bstring, f') \<Rightarrow> obind (decode L bstring) (\<lambda>s. Returns (s, f')))"

text \<open>
  \<open>mathutils\<close> vectors of two and three components, and the two results of
  \<open>read_vector4_f32\<close>: a \<open>Quaternion((w, x, y, z))\<close> or a \<open>Vector((w, x, y, z))\<close>.
\<close>

datatype vector2 = Vector2 f32 f32
datatype vector3 = Vector3 f32 f32 f32
datatype vector4 = Quaternion f32 f32 f32 f32 | Vector4 f32 f32 f32 f32

definition read_vector3_f32 :: "stream \<Rightarrow> (vector3 \<times> stream) outcome" where
  "read_vector3_f32 f =
     obind (read_f32 f) (\<lambda>(x, f).
     obind (read_f32 f) (\<lambda>(y, f).
     obind (read_f32 f) (\<lambda>(z, f).
     Returns (Vector3 x y z, f))))"

definition read_vector4_f32 :: "stream \<Rightarrow> bool \<Rightarrow> (vector4 \<times> stream) outcome" where
  "read_vector4_f32 f is_rotation =
     obind (read_f32 f) (\<lambda>(w, f).
     obind (read_f32 f) (\<lambda>(x, f).
     obind (read_f32 f) (\<lambda>(y, f).
     obind (read_f32 f) (\<lambda>(z, f).
     if is_rotation then Returns (Quaternion w x y z, f)
     else Returns (Vector4 w x y z, f)))))"

definition read_vector2_f32 :: "stream \<Rightarrow> (vector2 \<times> stream) outcome" where
  "read_vector2_f32 f =
     obind (read_f32 f) (\<lambda>(x, f).
     obind (read_f32 f) (\<lambda>(y, f).
     Returns (Vector2 x y, f)))"

text \<open>The writers: the bytes appended to the output file.\<close>

definition write_f32 :: "f32 \<Rightarrow> byte list" where
  "write_f32 d = le_bytes 4 (uint d)"

text \<open>\<open>struct.pack("<i", ...)\<close> raises \<open>struct.error\<close> outside the 32-bit range.\<close>

definition write_i32 :: "int \<Rightarrow> byte list outcome" where
  "write_i32 d = (if - (2 ^ 31) \<le> d \<and> d < 2 ^ 31 then Returns (le_bytes 4 (d mod 2 ^ 32))
     else Raises StructError)"

definition write_vector3_f32 :: "vector3 \<Rightarrow> byte list" where
  "write_vector3_f32 d = (case d of Vector3 x y z \<Rightarrow> write_f32 x @ write_f32 y @ write_f32 z)"

definition write_vector4_f32 :: "vector4 \<Rightarrow> byte list" where
  "write_vector4_f32 d = (case d of
       Quaternion w x y z \<Rightarrow> write_f32 w @ write_f32 x @ write_f32 y @ write_f32 z
     | Vector4 w x y z \<Rightarrow> write_f32 w @ write_f32 x @ write_f32 y @ write_f32 z)"

definition encode :: "pylib \<Rightarrow> pystr \<Rightarrow> byte list outcome" where
  "encode L s = (case euckr_encode L s of
       None \<Rightarrow> Raises UnicodeEncodeError
     | Some bs \<Rightarrow> Returns bs)"




section \<open>rose\_data.py: skeletons\<close>

text \<open>A string literal of the source, as code points.\<close>

definition lit :: "string \<Rightarrow> pystr" where
  "lit s = map of_char s"




record BoneData =
  parent :: int
  name :: pystr
  position :: vector3
  rotation :: vector4

text \<open>\<open>BoneData()\<close>: parent 0, empty name, \<open>Vector.Fill(3)\<close>, the identity \<open>Quaternion()\<close>.\<close>

definition BoneData_init :: BoneData where
  "BoneData_init = \<lparr> parent = 0, name = [], position = Vector3 0 0 0,
     rotation = Quaternion 0x3F800000 0 0 0 \<rparr>"

definition vector3_div100 :: "pylib \<Rightarrow> vector3 \<Rightarrow> vector3" where
  "vector3_div100 L v = (case v of Vector3 x y z \<Rightarrow>
     Vector3 (vector_div100 L x) (vector_div100 L y) (vector_div100 L z))"

definition BoneData_load_data ::
  "pylib \<Rightarrow> BoneData \<Rightarrow> stream \<Rightarrow> bool \<Rightarrow> bool \<Rightarrow> (BoneData \<times> stream) outcome" where
  "BoneData_load_data L self f is_dummy format_v_2 =
     obind (if is_dummy
            then obind (read_str L f) (\<lambda>(s, f). Returns (self\<lparr>name := s\<rparr>, f))
            else Returns (self, f)) (\<lambda>(self, f).
     obind (read_i32 f) (\<lambda>(p, f).
     obind (if \<not> is_dummy
            then obind (read_str L f) (\<lambda>(s, f). Returns (self\<lparr>parent := p, name := s\<rparr>, f))
            else Returns (self\<lparr>parent := p\<rparr>, f)) (\<lambda>(self, f).
     obind (read_vector3_f32 f) (\<lambda>(v, f).
     if format_v_2 then Returns (self\<lparr>position := vector3_div100 L v\<rparr>, f)
     else obind (read_vector4_f32 f True) (\<lambda>(q, f).
       Returns (self\<lparr>position := vector3_div100 L v, rotation := q\<rparr>, f))))))"


record SkeletonData =
  format_code :: int
  bones :: "BoneData list"
  dummies :: "BoneData list"

text \<open>\<open>SkeletonData()\<close>, as the importer creates it before loading.\<close>

definition SkeletonData_init :: SkeletonData where
  "SkeletonData_init = \<lparr> format_code = 0, bones = [], dummies = [] \<rparr>"

definition load_format_code :: "pylib \<Rightarrow> SkeletonData \<Rightarrow> stream \<Rightarrow> (SkeletonData \<times> stream) outcome" where
  "load_format_code L self f =
     obind (read_fstr L f 7) (\<lambda>(code, f).
     if code = lit ''ZMD0003'' then Returns (self\<lparr>format_code := 3\<rparr>, f)
     else if code = lit ''ZMD0002'' then Returns (self\<lparr>format_code := 2\<rparr>, f)
     else Raises RoseParseError)"

text \<open>
  The loops \<open>for i in range(count)\<close> of \<open>_load_bones\<close> and \<open>_load_dummies\<close>: round
  \<open>i\<close> appends a fresh \<open>BoneData()\<close> to the list and loads the list's element \<open>i\<close>
  (which exists, the list having grown by one each round).  The first argument counts
  the rounds left; a negative count runs no round.
\<close>

fun load_records ::
  "pylib \<Rightarrow> nat \<Rightarrow> nat \<Rightarrow> bool \<Rightarrow> bool \<Rightarrow> BoneData list \<Rightarrow> stream
     \<Rightarrow> (BoneData list \<times> stream) outcome" where
  "load_records L 0 i is_dummy format_v_2 records f = Returns (records, f)"
| "load_records L (Suc n) i is_dummy format_v_2 records f =
     (let records = records @ [BoneData_init] in
      obind (BoneData_load_data L (records ! i) f is_dummy format_v_2) (\<lambda>(b, f).
      load_records L n (Suc i) is_dummy format_v_2 (records[i := b]) f))"

definition load_bones :: "pylib \<Rightarrow> SkeletonData \<Rightarrow> stream \<Rightarrow> (SkeletonData \<times> stream) outcome" where
  "load_bones L self f =
     obind (read_i32 f) (\<lambda>(bone_count, f).
     obind (load_records L (nat bone_count) 0 False False (bones self) f) (\<lambda>(bs, f).
     Returns (self\<lparr>bones := bs\<rparr>, f)))"

text \<open>
  \<open>_load_dummies\<close>: the bare \<open>except:\<close> around the count catches whatever
  \<open>read_i32\<close> raises and returns.
\<close>

definition load_dummies :: "pylib \<Rightarrow> SkeletonData \<Rightarrow> stream \<Rightarrow> (SkeletonData \<times> stream) outcome" where
  "load_dummies L self f =
     (case read_i32 f of
        Raises e \<Rightarrow> Returns (self, snd (read f 4))
      | Hangs \<Rightarrow> Hangs
      | Returns (dummy_count, f) \<Rightarrow>
          obind (load_records L (nat dummy_count) 0 True (format_code self = 2) (dummies self) f)
            (\<lambda>(ds, f). Returns (self\<lparr>dummies := ds\<rparr>, f)))"

definition load_data :: "pylib \<Rightarrow> stream \<Rightarrow> SkeletonData outcome" where
  "load_data L f =
     obind (load_format_code L SkeletonData_init f) (\<lambda>(self, f).
     obind (load_bones L self f) (\<lambda>(self, f).
     obind (load_dummies L self f) (\<lambda>(self, f).
     Returns self)))"






section \<open>rose\_data.py: animations\<close>

text \<open>\<open>class TrackType(enum.IntEnum)\<close>.\<close>

definition TrackType_POSITION :: int where "TrackType_POSITION = push_bit 1 1"
definition TrackType_ROTATION :: int where "TrackType_ROTATION = push_bit 2 1"
definition TrackType_NORMAL :: int where "TrackType_NORMAL = push_bit 3 1"
definition TrackType_ALPHA :: int where "TrackType_ALPHA = push_bit 4 1"
definition TrackType_UV1 :: int where "TrackType_UV1 = push_bit 5 1"
definition TrackType_UV2 :: int where "TrackType_UV2 = push_bit 6 1"
definition TrackType_UV3 :: int where "TrackType_UV3 = push_bit 7 1"
definition TrackType_UV4 :: int where "TrackType_UV4 = push_bit 8 1"
definition TrackType_TEXTUREANIM :: int where "TrackType_TEXTUREANIM = push_bit 9 1"
definition TrackType_SCALE :: int where "TrackType_SCALE = push_bit 10 1"

text \<open>\<open>class ChannelData\<close>; the field \<open>type\<close> is called \<open>tracktype\<close> here.\<close>

record ChannelData =
  "identifier" :: int
  tracktype :: int
  position :: "vector3 list"
  rotation :: "vector4 list"
  normal :: "vector3 list"
  alpha :: "f32 list"
  uv_1 :: "vector2 list"
  uv_2 :: "vector2 list"
  uv_3 :: "vector2 list"
  uv_4 :: "vector2 list"
  texture_animation :: "f32 list"
  scale :: "f32 list"

definition ChannelData_init :: "int \<Rightarrow> int \<Rightarrow> ChannelData" where
  "ChannelData_init tt track_id = \<lparr> identifier = track_id, tracktype = tt, position = [],
     rotation = [], normal = [], alpha = [], uv_1 = [], uv_2 = [], uv_3 = [], uv_4 = [],
     texture_animation = [], scale = [] \<rparr>"

definition positions_enabled :: "ChannelData \<Rightarrow> bool" where
  "positions_enabled self \<longleftrightarrow> (TrackType_POSITION AND tracktype self) \<noteq> 0"

definition rotations_enabled :: "ChannelData \<Rightarrow> bool" where
  "rotations_enabled self \<longleftrightarrow> (TrackType_ROTATION AND tracktype self) \<noteq> 0"

definition normals_enabled :: "ChannelData \<Rightarrow> bool" where
  "normals_enabled self \<longleftrightarrow> (TrackType_NORMAL AND tracktype self) \<noteq> 0"

definition alpha_enabled :: "ChannelData \<Rightarrow> bool" where
  "alpha_enabled self \<longleftrightarrow> (TrackType_ALPHA AND tracktype self) \<noteq> 0"

definition uv1_enabled :: "ChannelData \<Rightarrow> bool" where
  "uv1_enabled self \<longleftrightarrow> (TrackType_UV1 AND tracktype self) \<noteq> 0"

definition uv2_enabled :: "ChannelData \<Rightarrow> bool" where
  "uv2_enabled self \<longleftrightarrow> (TrackType_UV2 AND tracktype self) \<noteq> 0"

definition uv3_enabled :: "ChannelData \<Rightarrow> bool" where
  "uv3_enabled self \<longleftrightarrow> (TrackType_UV3 AND tracktype self) \<noteq> 0"

definition uv4_enabled :: "ChannelData \<Rightarrow> bool" where
  "uv4_enabled self \<longleftrightarrow> (TrackType_UV4 AND tracktype self) \<noteq> 0"

definition textureanim_enabled :: "ChannelData \<Rightarrow> bool" where
  "textureanim_enabled self \<longleftrightarrow> (TrackType_TEXTUREANIM AND tracktype self) \<noteq> 0"

definition scale_enabled :: "ChannelData \<Rightarrow> bool" where
  "scale_enabled self \<longleftrightarrow> (TrackType_SCALE AND tracktype self) \<noteq> 0"

text \<open>\<open>class AnimationData\<close>; its \<open>format_code\<close> is the eight-character token.\<close>

record AnimationData =
  format_code :: pystr
  fps :: int
  frame_count :: int
  channel_count :: int
  channels :: "ChannelData list"

definition AnimationData_init :: AnimationData where
  "AnimationData_init = \<lparr> format_code = [], fps = 0, frame_count = 0, channel_count = 0,
     channels = [] \<rparr>"

definition load_settings ::
  "pylib \<Rightarrow> AnimationData \<Rightarrow> stream \<Rightarrow> (AnimationData \<times> stream) outcome" where
  "load_settings L self f =
     obind (read_fstr L f 8) (\<lambda>(code, f).
     obind (read_i32 f) (\<lambda>(fps_v, f).
     obind (read_i32 f) (\<lambda>(count, f).
     Returns (self\<lparr>format_code := code, fps := fps_v, frame_count := count\<rparr>, f))))"

fun setup_channels_loop ::
  "nat \<Rightarrow> ChannelData list \<Rightarrow> stream \<Rightarrow> (ChannelData list \<times> stream) outcome" where
  "setup_channels_loop 0 chans f = Returns (chans, f)"
| "setup_channels_loop (Suc n) chans f =
     obind (read_i32 f) (\<lambda>(tt, f).
     obind (read_i32 f) (\<lambda>(track_id, f).
     setup_channels_loop n (chans @ [ChannelData_init tt track_id]) f))"

definition setup_channels ::
  "AnimationData \<Rightarrow> stream \<Rightarrow> (AnimationData \<times> stream) outcome" where
  "setup_channels self f =
     obind (read_i32 f) (\<lambda>(count, f).
     obind (setup_channels_loop (nat count) (channels self) f) (\<lambda>(chans, f).
     Returns (self\<lparr>channel_count := count, channels := chans\<rparr>, f)))"

text \<open>
  The body of the inner loop of \<open>_load_channel_data\<close> for one channel and one frame,
  one definition for each \<open>if\<close> statement of the body, in the order of the source.
\<close>

definition frame_position_rotation ::
  "pylib \<Rightarrow> ChannelData \<Rightarrow> stream \<Rightarrow> (ChannelData \<times> stream) outcome" where
  "frame_position_rotation L c f =
     (if positions_enabled c then
        obind (read_f32 f) (\<lambda>(x, f).
        obind (read_f32 f) (\<lambda>(y, f).
        obind (read_f32 f) (\<lambda>(z, f).
        Returns (c\<lparr>position := position c
           @ [Vector3 (float_div100 L x) (float_div100 L y) (float_div100 L z)]\<rparr>, f))))
      else if rotations_enabled c then
        obind (read_f32 f) (\<lambda>(w, f).
        obind (read_f32 f) (\<lambda>(x, f).
        obind (read_f32 f) (\<lambda>(y, f).
        obind (read_f32 f) (\<lambda>(z, f).
        Returns (c\<lparr>rotation := rotation c @ [Quaternion w x y z]\<rparr>, f)))))
      else Returns (c, f))"

definition frame_normal :: "ChannelData \<Rightarrow> stream \<Rightarrow> (ChannelData \<times> stream) outcome" where
  "frame_normal c f =
     (if normals_enabled c then
        obind (read_f32 f) (\<lambda>(x, f).
        obind (read_f32 f) (\<lambda>(y, f).
        obind (read_f32 f) (\<lambda>(z, f).
        Returns (c\<lparr>normal := normal c @ [Vector3 x y z]\<rparr>, f))))
      else Returns (c, f))"

text \<open>
  The local variable \<open>alpha\<close> of \<open>_load_channel_data\<close> is threaded through the frames
  and channels: \<open>None\<close> while it is unbound, when reading it raises
  \<open>UnboundLocalError\<close>.
\<close>

definition frame_alpha ::
  "ChannelData \<Rightarrow> f32 option \<Rightarrow> stream \<Rightarrow> (ChannelData \<times> f32 option \<times> stream) outcome" where
  "frame_alpha c alpha_var f =
     (if alpha_enabled c then
        obind (read_f32 f) (\<lambda>(a, f).
        Returns (c\<lparr>alpha := alpha c @ [a]\<rparr>, Some a, f))
      else Returns (c, alpha_var, f))"

definition frame_uv1 :: "ChannelData \<Rightarrow> stream \<Rightarrow> (ChannelData \<times> stream) outcome" where
  "frame_uv1 c f =
     (if uv1_enabled c then
        obind (read_f32 f) (\<lambda>(x, f).
        obind (read_f32 f) (\<lambda>(y, f).
        Returns (c\<lparr>uv_1 := uv_1 c @ [Vector2 x y]\<rparr>, f)))
      else Returns (c, f))"

definition frame_uv2 :: "ChannelData \<Rightarrow> stream \<Rightarrow> (ChannelData \<times> stream) outcome" where
  "frame_uv2 c f =
     (if uv2_enabled c then
        obind (read_f32 f) (\<lambda>(x, f).
        obind (read_f32 f) (\<lambda>(y, f).
        Returns (c\<lparr>uv_2 := uv_2 c @ [Vector2 x y]\<rparr>, f)))
      else Returns (c, f))"

definition frame_uv3 :: "ChannelData \<Rightarrow> stream \<Rightarrow> (ChannelData \<times> stream) outcome" where
  "frame_uv3 c f =
     (if uv3_enabled c then
        obind (read_f32 f) (\<lambda>(x, f).
        obind (read_f32 f) (\<lambda>(y, f).
        Returns (c\<lparr>uv_3 := uv_3 c @ [Vector2 x y]\<rparr>, f)))
      else Returns (c, f))"

definition frame_uv4 :: "ChannelData \<Rightarrow> stream \<Rightarrow> (ChannelData \<times> stream) outcome" where
  "frame_uv4 c f =
     (if uv4_enabled c then
        obind (read_f32 f) (\<lambda>(x, f).
        obind (read_f32 f) (\<lambda>(y, f).
        Returns (c\<lparr>uv_4 := uv_4 c @ [Vector2 x y]\<rparr>, f)))
      else Returns (c, f))"

text \<open>
  \<open>texture_anim = read_f32(f)\<close> and then \<open>texture_animation.append(alpha)\<close>: the value
  read is dropped and the variable \<open>alpha\<close> is appended.  The scale branch does the same.
\<close>

definition frame_texture_animation ::
  "ChannelData \<Rightarrow> f32 option \<Rightarrow> stream \<Rightarrow> (ChannelData \<times> stream) outcome" where
  "frame_texture_animation c alpha_var f =
     (if textureanim_enabled c then
        obind (read_f32 f) (\<lambda>(texture_anim, f).
        case alpha_var of
          None \<Rightarrow> Raises UnboundLocalError
        | Some a \<Rightarrow> Returns (c\<lparr>texture_animation := texture_animation c @ [a]\<rparr>, f))
      else Returns (c, f))"

definition frame_scale ::
  "ChannelData \<Rightarrow> f32 option \<Rightarrow> stream \<Rightarrow> (ChannelData \<times> stream) outcome" where
  "frame_scale c alpha_var f =
     (if scale_enabled c then
        obind (read_f32 f) (\<lambda>(scale_v, f).
        case alpha_var of
          None \<Rightarrow> Raises UnboundLocalError
        | Some a \<Rightarrow> Returns (c\<lparr>scale := scale c @ [a]\<rparr>, f))
      else Returns (c, f))"

definition load_channel_frame ::
  "pylib \<Rightarrow> ChannelData \<Rightarrow> f32 option \<Rightarrow> stream
     \<Rightarrow> (ChannelData \<times> f32 option \<times> stream) outcome" where
  "load_channel_frame L c alpha_var f =
     obind (frame_position_rotation L c f) (\<lambda>(c, f).
     obind (frame_normal c f) (\<lambda>(c, f).
     obind (frame_alpha c alpha_var f) (\<lambda>(c, alpha_var, f).
     obind (frame_uv1 c f) (\<lambda>(c, f).
     obind (frame_uv2 c f) (\<lambda>(c, f).
     obind (frame_uv3 c f) (\<lambda>(c, f).
     obind (frame_uv4 c f) (\<lambda>(c, f).
     obind (frame_texture_animation c alpha_var f) (\<lambda>(c, f).
     obind (frame_scale c alpha_var f) (\<lambda>(c, f).
     Returns (c, alpha_var, f))))))))))"

text \<open>
  \<open>for j in range(len(self.channels))\<close>: the first argument counts the rounds left,
  the second is \<open>j\<close>.
\<close>

fun load_frame ::
  "pylib \<Rightarrow> nat \<Rightarrow> nat \<Rightarrow> ChannelData list \<Rightarrow> f32 option \<Rightarrow> stream
     \<Rightarrow> (ChannelData list \<times> f32 option \<times> stream) outcome" where
  "load_frame L 0 j chans alpha_var f = Returns (chans, alpha_var, f)"
| "load_frame L (Suc n) j chans alpha_var f =
     (if j < length chans then
        obind (load_channel_frame L (chans ! j) alpha_var f) (\<lambda>(c, alpha_var, f).
        load_frame L n (Suc j) (chans[j := c]) alpha_var f)
      else Raises IndexError)"

text \<open>\<open>for i in range(self.frame_count)\<close>.\<close>

fun load_frames ::
  "pylib \<Rightarrow> nat \<Rightarrow> ChannelData list \<Rightarrow> f32 option \<Rightarrow> stream
     \<Rightarrow> (ChannelData list \<times> f32 option \<times> stream) outcome" where
  "load_frames L 0 chans alpha_var f = Returns (chans, alpha_var, f)"
| "load_frames L (Suc n) chans alpha_var f =
     obind (load_frame L (length chans) 0 chans alpha_var f) (\<lambda>(chans, alpha_var, f).
     load_frames L n chans alpha_var f)"

definition load_channel_data ::
  "pylib \<Rightarrow> AnimationData \<Rightarrow> stream \<Rightarrow> (AnimationData \<times> stream) outcome" where
  "load_channel_data L self f =
     obind (load_frames L (nat (frame_count self)) (channels self) None f)
       (\<lambda>(chans, alpha_var, f). Returns (self\<lparr>channels := chans\<rparr>, f))"

definition AnimationData_load_data :: "pylib \<Rightarrow> stream \<Rightarrow> AnimationData outcome" where
  "AnimationData_load_data L f =
     obind (load_settings L AnimationData_init f) (\<lambda>(self, f).
     obind (setup_channels self f) (\<lambda>(self, f).
     obind (load_channel_data L self f) (\<lambda>(self, f).
     Returns self)))"

section \<open>utils.py: the readers of the mesh importer\<close>

text \<open>
  Vectors whose components are assigned 16-bit integers; single precision holds these
  exactly, so the components are kept as integers.
\<close>

datatype ivector3 = IVector3 int int int
datatype ivector4 = IVector4 int int int int

definition read_vector4_i16 :: "stream \<Rightarrow> (ivector4 \<times> stream) outcome" where
  "read_vector4_i16 f =
     obind (read_i16 f) (\<lambda>(x, f).
     obind (read_i16 f) (\<lambda>(y, f).
     obind (read_i16 f) (\<lambda>(z, f).
     obind (read_i16 f) (\<lambda>(w, f).
     Returns (IVector4 x y z w, f)))))"

definition read_vector3_i16 :: "stream \<Rightarrow> (ivector3 \<times> stream) outcome" where
  "read_vector3_i16 f =
     obind (read_i16 f) (\<lambda>(x, f).
     obind (read_i16 f) (\<lambda>(y, f).
     obind (read_i16 f) (\<lambda>(z, f).
     Returns (IVector3 x y z, f))))"

text \<open>\<open>read_color\<close> returns the pair of a \<open>Color((r, g, b))\<close> and the alpha value.\<close>

datatype color = Color f32 f32 f32

definition read_color :: "stream \<Rightarrow> ((color \<times> f32) \<times> stream) outcome" where
  "read_color f =
     obind (read_f32 f) (\<lambda>(r, f).
     obind (read_f32 f) (\<lambda>(g, f).
     obind (read_f32 f) (\<lambda>(b, f).
     obind (read_f32 f) (\<lambda>(a, f).
     Returns ((Color r g b, a), f)))))"

section \<open>zms\_import.py: meshes\<close>

text \<open>\<open>class VertexFormat(enum.IntEnum)\<close>.\<close>

definition VertexFormat_POSITION :: int where "VertexFormat_POSITION = push_bit 1 1"
definition VertexFormat_NORMAL :: int where "VertexFormat_NORMAL = push_bit 2 1"
definition VertexFormat_COLOR :: int where "VertexFormat_COLOR = push_bit 3 1"
definition VertexFormat_BONEWEIGHT :: int where "VertexFormat_BONEWEIGHT = push_bit 4 1"
definition VertexFormat_BONEINDEX :: int where "VertexFormat_BONEINDEX = push_bit 5 1"
definition VertexFormat_TANGENT :: int where "VertexFormat_TANGENT = push_bit 6 1"
definition VertexFormat_UV1 :: int where "VertexFormat_UV1 = push_bit 7 1"
definition VertexFormat_UV2 :: int where "VertexFormat_UV2 = push_bit 8 1"
definition VertexFormat_UV3 :: int where "VertexFormat_UV3 = push_bit 9 1"
definition VertexFormat_UV4 :: int where "VertexFormat_UV4 = push_bit 10 1"

text \<open>
  The attribute \<open>color\<close> of a vertex starts as \<open>Color()\<close> and is overwritten with the
  pair that \<open>read_color\<close> returns.
\<close>

datatype vertex_color = PlainColor color | ColorAndAlpha color f32

record Vertex =
  position :: vector3
  normal :: vector3
  color :: vertex_color
  bone_weights :: vector4
  bone_indices :: ivector4
  tangent :: vector3
  uv_layers :: "vector2 option list"

definition Vertex_init :: Vertex where
  "Vertex_init = \<lparr> position = Vector3 0 0 0, normal = Vector3 0 0 0,
     color = PlainColor (Color 0 0 0), bone_weights = Vector4 0 0 0 0,
     bone_indices = IVector4 0 0 0 0, tangent = Vector3 0 0 0,
     uv_layers = [None, None, None, None] \<rparr>"

record BoundingBox =
  bb_min :: vector3
  bb_max :: vector3

record MeshImportData =
  "identifier" :: pystr
  format :: int
  bounding_box :: BoundingBox
  bones :: "int list"
  vertices :: "Vertex list"
  indices :: "ivector3 list"
  materials :: "int list"
  strips :: "int list"
  pool :: int

definition MeshImportData_init :: MeshImportData where
  "MeshImportData_init = \<lparr> identifier = [], format = - 1,
     bounding_box = \<lparr> bb_min = Vector3 0 0 0, bb_max = Vector3 0 0 0 \<rparr>,
     bones = [], vertices = [], indices = [], materials = [], strips = [], pool = 0 \<rparr>"

definition mesh_positions_enabled :: "MeshImportData \<Rightarrow> bool" where
  "mesh_positions_enabled self \<longleftrightarrow> (VertexFormat_POSITION AND format self) \<noteq> 0"

definition mesh_normals_enabled :: "MeshImportData \<Rightarrow> bool" where
  "mesh_normals_enabled self \<longleftrightarrow> (VertexFormat_NORMAL AND format self) \<noteq> 0"

definition colors_enabled :: "MeshImportData \<Rightarrow> bool" where
  "colors_enabled self \<longleftrightarrow> (VertexFormat_COLOR AND format self) \<noteq> 0"

definition bones_enabled :: "MeshImportData \<Rightarrow> bool" where
  "bones_enabled self \<longleftrightarrow> (VertexFormat_BONEWEIGHT AND format self) \<noteq> 0
     \<and> (VertexFormat_BONEINDEX AND format self) \<noteq> 0"

definition tangents_enabled :: "MeshImportData \<Rightarrow> bool" where
  "tangents_enabled self \<longleftrightarrow> (VertexFormat_TANGENT AND format self) \<noteq> 0"

definition mesh_uv1_enabled :: "MeshImportData \<Rightarrow> bool" where
  "mesh_uv1_enabled self \<longleftrightarrow> (VertexFormat_UV1 AND format self) \<noteq> 0"

definition mesh_uv2_enabled :: "MeshImportData \<Rightarrow> bool" where
  "mesh_uv2_enabled self \<longleftrightarrow> (VertexFormat_UV2 AND format self) \<noteq> 0"

definition mesh_uv3_enabled :: "MeshImportData \<Rightarrow> bool" where
  "mesh_uv3_enabled self \<longleftrightarrow> (VertexFormat_UV3 AND format self) \<noteq> 0"

definition mesh_uv4_enabled :: "MeshImportData \<Rightarrow> bool" where
  "mesh_uv4_enabled self \<longleftrightarrow> (VertexFormat_UV4 AND format self) \<noteq> 0"

text \<open>
  \<open>for _ in range(count): xs.append(rd(f))\<close>, the loop that fills the bone table, the
  triangles, the materials and the strips.  A negative count runs no round.
\<close>

fun append_loop ::
  "(stream \<Rightarrow> ('a \<times> stream) outcome) \<Rightarrow> nat \<Rightarrow> 'a list \<Rightarrow> stream \<Rightarrow> ('a list \<times> stream) outcome" where
  "append_loop rd 0 xs f = Returns (xs, f)"
| "append_loop rd (Suc n) xs f = obind (rd f) (\<lambda>(x, f). append_loop rd n (xs @ [x]) f)"

text \<open>
  \<open>for i in range(vert_count): self.vertices[i].attr = rd(f)\<close>, one pass over the
  vertices for one attribute: the value is read first, then stored in vertex \<open>i\<close>.
\<close>

fun vertex_pass ::
  "(stream \<Rightarrow> ('a \<times> stream) outcome) \<Rightarrow> ('a \<Rightarrow> Vertex \<Rightarrow> Vertex) \<Rightarrow> nat \<Rightarrow> nat \<Rightarrow> Vertex list
     \<Rightarrow> stream \<Rightarrow> (Vertex list \<times> stream) outcome" where
  "vertex_pass rd store 0 i vs f = Returns (vs, f)"
| "vertex_pass rd store (Suc n) i vs f =
     obind (rd f) (\<lambda>(x, f).
     if i < length vs then vertex_pass rd store n (Suc i) (vs[i := store x (vs ! i)]) f
     else Raises IndexError)"

definition read_weights_indices :: "stream \<Rightarrow> ((vector4 \<times> ivector4) \<times> stream) outcome" where
  "read_weights_indices f =
     obind (read_vector4_f32 f False) (\<lambda>(w, f).
     obind (read_vector4_i16 f) (\<lambda>(ix, f).
     Returns ((w, ix), f)))"

text \<open>An attribute pass of \<open>load\<close>, run when its predicate holds.\<close>

definition gated_pass ::
  "bool \<Rightarrow> (stream \<Rightarrow> ('a \<times> stream) outcome) \<Rightarrow> ('a \<Rightarrow> Vertex \<Rightarrow> Vertex) \<Rightarrow> nat
     \<Rightarrow> MeshImportData \<Rightarrow> stream \<Rightarrow> (MeshImportData \<times> stream) outcome" where
  "gated_pass enabled rd store vert_count self f =
     (if enabled then
        obind (vertex_pass rd store vert_count 0 (vertices self) f) (\<lambda>(vs, f).
        Returns (self\<lparr>vertices := vs\<rparr>, f))
      else Returns (self, f))"

text \<open>
  \<open>MeshImportData.load\<close>, in four parts.  The first reads the identifier, the format,
  the bounding box, the bone table and the vertex count, and appends that many
  \<open>Vertex()\<close>; its result carries the version and the vertex count, the two locals
  the later parts use.
\<close>

definition load_header ::
  "pylib \<Rightarrow> MeshImportData \<Rightarrow> stream \<Rightarrow> ((MeshImportData \<times> int \<times> int) \<times> stream) outcome" where
  "load_header L self f =
     obind (read_str L f) (\<lambda>(ident, f).
     let self = self\<lparr>identifier := ident\<rparr>;
         version = (if ident = lit ''ZMS0007'' then Some (7 :: int)
                    else if ident = lit ''ZMS0008'' then Some 8 else None)
     in case version of
          None \<Rightarrow> Raises RoseParseError
        | Some version \<Rightarrow>
     obind (read_i32 f) (\<lambda>(fmt, f).
     obind (read_vector3_f32 f) (\<lambda>(bmin, f).
     obind (read_vector3_f32 f) (\<lambda>(bmax, f).
     let self = self\<lparr>format := fmt, bounding_box := \<lparr> bb_min = bmin, bb_max = bmax \<rparr>\<rparr> in
     obind (read_i16 f) (\<lambda>(bone_count, f).
     obind (append_loop read_i16 (nat bone_count) (bones self) f) (\<lambda>(bs, f).
     let self = self\<lparr>bones := bs\<rparr> in
     obind (read_i16 f) (\<lambda>(vert_count, f).
     Returns ((self\<lparr>vertices := vertices self @ replicate (nat vert_count) Vertex_init\<rparr>,
               version, vert_count), f))))))))"

text \<open>The second part: the attribute passes, each under its format bit.\<close>

definition load_attributes ::
  "int \<Rightarrow> MeshImportData \<Rightarrow> stream \<Rightarrow> (MeshImportData \<times> stream) outcome" where
  "load_attributes vert_count self f =
     (let n = nat vert_count in
     obind (gated_pass (mesh_positions_enabled self) read_vector3_f32
              (\<lambda>x v. v\<lparr>position := x\<rparr>) n self f) (\<lambda>(self, f).
     obind (gated_pass (mesh_normals_enabled self) read_vector3_f32
              (\<lambda>x v. v\<lparr>normal := x\<rparr>) n self f) (\<lambda>(self, f).
     obind (gated_pass (colors_enabled self) read_color
              (\<lambda>(c, a) v. v\<lparr>color := ColorAndAlpha c a\<rparr>) n self f) (\<lambda>(self, f).
     obind (gated_pass (bones_enabled self) read_weights_indices
              (\<lambda>(w, ix) v. v\<lparr>bone_weights := w, bone_indices := ix\<rparr>) n self f) (\<lambda>(self, f).
     obind (gated_pass (tangents_enabled self) read_vector3_f32
              (\<lambda>x v. v\<lparr>tangent := x\<rparr>) n self f) (\<lambda>(self, f).
     obind (gated_pass (mesh_uv1_enabled self) read_vector2_f32
              (\<lambda>x v. v\<lparr>uv_layers := (uv_layers v)[0 := Some x]\<rparr>) n self f) (\<lambda>(self, f).
     obind (gated_pass (mesh_uv2_enabled self) read_vector2_f32
              (\<lambda>x v. v\<lparr>uv_layers := (uv_layers v)[1 := Some x]\<rparr>) n self f) (\<lambda>(self, f).
     obind (gated_pass (mesh_uv3_enabled self) read_vector2_f32
              (\<lambda>x v. v\<lparr>uv_layers := (uv_layers v)[2 := Some x]\<rparr>) n self f) (\<lambda>(self, f).
     gated_pass (mesh_uv4_enabled self) read_vector2_f32
              (\<lambda>x v. v\<lparr>uv_layers := (uv_layers v)[3 := Some x]\<rparr>) n self f)))))))))"

text \<open>The third part: the triangles, the materials and the strips.\<close>

definition load_tables :: "MeshImportData \<Rightarrow> stream \<Rightarrow> (MeshImportData \<times> stream) outcome" where
  "load_tables self f =
     obind (read_i16 f) (\<lambda>(index_count, f).
     obind (append_loop read_vector3_i16 (nat index_count) (indices self) f) (\<lambda>(ixs, f).
     obind (read_i16 f) (\<lambda>(material_count, f).
     obind (append_loop read_i16 (nat material_count) (materials self) f) (\<lambda>(ms, f).
     obind (read_i16 f) (\<lambda>(strip_count, f).
     obind (append_loop read_i16 (nat strip_count) (strips self) f) (\<lambda>(ss, f).
     Returns (self\<lparr>indices := ixs, materials := ms, strips := ss\<rparr>, f)))))))"

text \<open>
  The three together: \<open>load\<close> up to and including the strip table, with the stream
  left for the pool field.
\<close>

definition load_sections ::
  "pylib \<Rightarrow> MeshImportData \<Rightarrow> stream \<Rightarrow> ((MeshImportData \<times> int) \<times> stream) outcome" where
  "load_sections L self f =
     obind (load_header L self f) (\<lambda>((self, version, vert_count), f).
     obind (load_attributes vert_count self f) (\<lambda>(self, f).
     obind (load_tables self f) (\<lambda>(self, f).
     Returns ((self, version), f))))"

text \<open>
  The fourth part and \<open>load\<close> itself: after the sections, version 8 tries the pool
  field inside \<open>try\<close> with a bare \<open>except:\<close>, which keeps the pool of the
  constructor.
\<close>

definition load :: "pylib \<Rightarrow> MeshImportData \<Rightarrow> stream \<Rightarrow> MeshImportData outcome" where
  "load L self f =
     obind (load_sections L self f) (\<lambda>((self, version), f).
     if version \<ge> 8 then
       (case read_i16 f of
          Returns (p, f) \<Rightarrow> Returns (self\<lparr>pool := p\<rparr>)
        | Raises e \<Rightarrow> Returns self
        | Hangs \<Rightarrow> Hangs)
     else Returns self)"

section \<open>An instance of the library code\<close>

text \<open>
  Concrete evaluation needs concrete library functions.  The codec is EUC-KR restricted
  to its ASCII range, where a byte is its own code point; it refuses every other byte
  or code point, so it stands for EUC-KR on ASCII data only.  The division is the
  IEEE-754 quotient rounded to the nearest single-precision value, ties to even;
  infinities and NaNs are left as they are.
\<close>

definition ascii_decode :: "byte list \<Rightarrow> pystr option" where
  "ascii_decode bs = (if list_all (\<lambda>b. b < 0x80) bs then Some (map unat bs) else None)"

definition ascii_encode :: "pystr \<Rightarrow> byte list option" where
  "ascii_encode s = (if list_all (\<lambda>c. c < 128) s then Some (map of_nat s) else None)"

definition f32_exponent :: "f32 \<Rightarrow> nat" where
  "f32_exponent w = (unat w div 2 ^ 23) mod 256"

definition f32_fraction :: "f32 \<Rightarrow> nat" where
  "f32_fraction w = unat w mod 2 ^ 23"

definition f32_sign :: "f32 \<Rightarrow> nat" where
  "f32_sign w = unat w div 2 ^ 31"

fun bit_length :: "nat \<Rightarrow> nat" where
  "bit_length n = (if n = 0 then 0 else Suc (bit_length (n div 2)))"

declare bit_length.simps [simp del]

text \<open>The integer \<open>k\<close> with \<open>2 ^ k \<le> n / d < 2 ^ (k + 1)\<close>, for positive \<open>n\<close> and \<open>d\<close>.\<close>

definition floor_log2 :: "nat \<Rightarrow> nat \<Rightarrow> int" where
  "floor_log2 n d = (let k = int (bit_length n) - int (bit_length d) in
     if (if 0 \<le> k then d * 2 ^ nat k \<le> n else d \<le> n * 2 ^ nat (- k)) then k else k - 1)"

text \<open>\<open>n / d\<close> rounded to the nearest integer, ties to even.\<close>

definition round_half_even :: "nat \<Rightarrow> nat \<Rightarrow> nat" where
  "round_half_even n d = (let q = n div d; r = n mod d in
     if 2 * r < d then q else if d < 2 * r then q + 1 else if even q then q else q + 1)"

text \<open>
  The single-precision value nearest to \<open>w * a / b\<close>.  With \<open>e\<close> the exponent field of
  \<open>w\<close> (1 for a subnormal) the magnitude of \<open>w\<close> is its significand times
  \<open>2 ^ (e - 150)\<close>; \<open>e'\<close> is the exponent field of the result and \<open>m\<close> its significand,
  whose carry into the exponent the addition performs.
\<close>

definition ieee_scale :: "nat \<Rightarrow> nat \<Rightarrow> f32 \<Rightarrow> f32" where
  "ieee_scale a b w =
     (if f32_exponent w = 255 then w
      else let e = max (f32_exponent w) 1;
               n = (if f32_exponent w = 0 then f32_fraction w else 2 ^ 23 + f32_fraction w) * a;
               e' = max 1 (floor_log2 n b + int e - 23);
               m = (if e' \<le> int e then round_half_even (n * 2 ^ nat (int e - e')) b
                    else round_half_even n (b * 2 ^ nat (e' - int e)))
           in of_nat (f32_sign w * 2 ^ 31
                + (if n = 0 then 0 else min (nat (e' - 1) * 2 ^ 23 + m) 0x7F800000)))"

definition ieee_div100 :: "f32 \<Rightarrow> f32" where
  "ieee_div100 w = ieee_scale 1 100 w"


definition ascii_ieee_lib :: pylib where
  "ascii_ieee_lib = \<lparr> euckr_decode = ascii_decode, euckr_encode = ascii_encode,
     vector_div100 = ieee_div100, float_div100 = ieee_div100 \<rparr>"

section \<open>Notions used in the proofs\<close>

text \<open>
  Two channel states with the same track type, positions and rotations; and the effect
  of \<open>n\<close> frames on a channel: the track type stays, and a channel with the POSITION
  bit gains \<open>n\<close> positions and no rotation.
\<close>

definition same_motion :: "ChannelData \<Rightarrow> ChannelData \<Rightarrow> bool" where
  "same_motion c c' \<longleftrightarrow> tracktype c' = tracktype c
     \<and> ChannelData.position c' = ChannelData.position c
     \<and> ChannelData.rotation c' = ChannelData.rotation c"

definition frames_step :: "nat \<Rightarrow> ChannelData \<Rightarrow> ChannelData \<Rightarrow> bool" where
  "frames_step n c c' \<longleftrightarrow> tracktype c' = tracktype c
     \<and> (positions_enabled c \<longrightarrow>
          length (ChannelData.position c') = length (ChannelData.position c) + n
          \<and> ChannelData.rotation c' = ChannelData.rotation c)"

text \<open>The values that the readers return for the bytes they consume.\<close>

definition f32_of :: "byte list \<Rightarrow> f32" where
  "f32_of bs = word_of_int (le_uint bs)"

definition vector3_of :: "byte list \<Rightarrow> vector3" where
  "vector3_of bs = Vector3 (f32_of (take 4 bs)) (f32_of (take 4 (drop 4 bs)))
     (f32_of (take 4 (drop 8 bs)))"

definition vector2_of :: "byte list \<Rightarrow> vector2" where
  "vector2_of bs = Vector2 (f32_of (take 4 bs)) (f32_of (take 4 (drop 4 bs)))"

text \<open>
  A reader of a fixed number of bytes: it returns on exactly the streams that hold that
  many bytes, and consumes them.
\<close>

definition fixed_reader :: "nat \<Rightarrow> (stream \<Rightarrow> ('a \<times> stream) outcome) \<Rightarrow> bool" where
  "fixed_reader k rd \<longleftrightarrow>
     (\<forall>f. if k \<le> length f
          then \<exists>x. (\<forall>g. rd (take k f @ g) = Returns (x, g))
          else \<exists>e. rd f = Raises e)"

text \<open>
  A reader that, when it returns, has not looked beyond what it consumed: on a longer
  stream it returns the same value and leaves the extra bytes.
\<close>

definition extends :: "(stream \<Rightarrow> ('a \<times> stream) outcome) \<Rightarrow> bool" where
  "extends rd \<longleftrightarrow> (\<forall>f x r g. rd f = Returns (x, r) \<longrightarrow> rd (f @ g) = Returns (x, r @ g))"

definition quaternion_of :: "byte list \<Rightarrow> vector4" where
  "quaternion_of bs = Quaternion (f32_of (take 4 bs)) (f32_of (take 4 (drop 4 bs)))
     (f32_of (take 4 (drop 8 bs))) (f32_of (take 4 (drop 12 bs)))"

section \<open>Example streams\<close>



text \<open>
  An animation of three frames with one channel whose track type has the POSITION and
  ROTATION bits (\<open>6\<close>); each frame holds the position \<open>(100.0, 0, 0)\<close>.
\<close>

definition zmo_position_rotation :: stream where
  "zmo_position_rotation = [0x5A, 0x4D, 0x4F, 0x30, 0x30, 0x30, 0x32, 0]
     @ [30, 0, 0, 0] @ [3, 0, 0, 0] @ [1, 0, 0, 0] @ [6, 0, 0, 0] @ [0, 0, 0, 0]
     @ [0, 0, 0xC8, 0x42, 0, 0, 0, 0, 0, 0, 0, 0]
     @ [0, 0, 0xC8, 0x42, 0, 0, 0, 0, 0, 0, 0, 0]
     @ [0, 0, 0xC8, 0x42, 0, 0, 0, 0, 0, 0, 0, 0]"

text \<open>
  An animation of one frame with one channel whose track type has the ALPHA, TEXTUREANIM
  and SCALE bits (\<open>16 + 512 + 1024\<close>); the frame holds alpha \<open>1.0\<close>, texture animation
  \<open>2.0\<close> and scale \<open>3.0\<close>.
\<close>

definition zmo_alpha_texture_scale :: stream where
  "zmo_alpha_texture_scale = [0x5A, 0x4D, 0x4F, 0x30, 0x30, 0x30, 0x32, 0]
     @ [30, 0, 0, 0] @ [1, 0, 0, 0] @ [1, 0, 0, 0] @ [0x10, 0x06, 0, 0] @ [0, 0, 0, 0]
     @ [0, 0, 0x80, 0x3F] @ [0, 0, 0, 0x40] @ [0, 0, 0x40, 0x40]"

text \<open>The same with the TEXTUREANIM bit alone (\<open>512\<close>) and the value \<open>2.0\<close>.\<close>

definition zmo_texture_only :: stream where
  "zmo_texture_only = [0x5A, 0x4D, 0x4F, 0x30, 0x30, 0x30, 0x32, 0]
     @ [30, 0, 0, 0] @ [1, 0, 0, 0] @ [1, 0, 0, 0] @ [0, 0x02, 0, 0] @ [0, 0, 0, 0]
     @ [0, 0, 0, 0x40]"

definition zmo_position_rotation_decoded :: AnimationData where
  "zmo_position_rotation_decoded =
     \<lparr> AnimationData.format_code = [90, 77, 79, 48, 48, 48, 50, 0], fps = 30, frame_count = 3,
       channel_count = 1,
       channels = [\<lparr> ChannelData.identifier = 0, tracktype = 6,
         ChannelData.position = [Vector3 0x3F800000 0 0, Vector3 0x3F800000 0 0, Vector3 0x3F800000 0 0],
         rotation = [], ChannelData.normal = [], alpha = [], uv_1 = [], uv_2 = [], uv_3 = [], uv_4 = [],
         texture_animation = [], scale = [] \<rparr>] \<rparr>"

text \<open>
  A version-7 mesh with format \<open>258\<close> (POSITION and UV2), no bones and two vertices, at
  \<open>(1.0, 0, 0)\<close> and \<open>(0, 1.0, 0)\<close>, with second UV pairs \<open>(0, 0)\<close> and \<open>(1.0, 1.0)\<close>; no
  triangles, materials or strips.
\<close>

definition zms7_two_vertices :: stream where
  "zms7_two_vertices = [0x5A, 0x4D, 0x53, 0x30, 0x30, 0x30, 0x37, 0] @ [0x02, 0x01, 0, 0]
     @ [0, 0, 0, 0, 0, 0, 0, 0, 0, 0, 0, 0] @ [0, 0, 0, 0, 0, 0, 0, 0, 0, 0, 0, 0] @ [0, 0] @ [2, 0]
     @ [0, 0, 0x80, 0x3F, 0, 0, 0, 0, 0, 0, 0, 0] @ [0, 0, 0, 0, 0, 0, 0x80, 0x3F, 0, 0, 0, 0]
     @ [0, 0, 0, 0, 0, 0, 0, 0] @ [0, 0, 0x80, 0x3F, 0, 0, 0x80, 0x3F]
     @ [0, 0] @ [0, 0] @ [0, 0]"

definition zms7_two_vertices_decoded :: MeshImportData where
  "zms7_two_vertices_decoded =
     \<lparr> MeshImportData.identifier = [90, 77, 83, 48, 48, 48, 55], format = 258,
       bounding_box = \<lparr> bb_min = Vector3 0 0 0, bb_max = Vector3 0 0 0 \<rparr>,
       MeshImportData.bones = [],
       vertices = [Vertex_init\<lparr>Vertex.position := Vector3 0x3F800000 0 0,
                     uv_layers := [None, Some (Vector2 0 0), None, None]\<rparr>,
                   Vertex_init\<lparr>Vertex.position := Vector3 0 0x3F800000 0,
                     uv_layers := [None, Some (Vector2 0x3F800000 0x3F800000), None, None]\<rparr>],
       indices = [], materials = [], strips = [], pool = 0 \<rparr>"

text \<open>
  A version-8 mesh with format 0 and empty tables, cut after the first byte of its pool
  field.
\<close>

definition zms8_half_pool :: stream where
  "zms8_half_pool = [0x5A, 0x4D, 0x53, 0x30, 0x30, 0x30, 0x38, 0] @ [0, 0, 0, 0]
     @ [0, 0, 0, 0, 0, 0, 0, 0, 0, 0, 0, 0] @ [0, 0, 0, 0, 0, 0, 0, 0, 0, 0, 0, 0]
     @ [0, 0] @ [0, 0] @ [0, 0] @ [0, 0] @ [0, 0] @ [5]"

definition zms8_empty_decoded :: MeshImportData where
  "zms8_empty_decoded =
     \<lparr> MeshImportData.identifier = [90, 77, 83, 48, 48, 48, 56], format = 0,
       bounding_box = \<lparr> bb_min = Vector3 0 0 0, bb_max = Vector3 0 0 0 \<rparr>,
       MeshImportData.bones = [], vertices = [], indices = [], materials = [], strips = [],
       pool = 0 \<rparr>"






section \<open>Properties of the primitive readers\<close>

lemma read_str_loop_found:
  "0 \<notin> set bs \<Longrightarrow> read_str_loop (bs @ 0 # rest) acc = Some (acc @ bs, rest)"
proof (induction bs arbitrary: acc)
  case Nil
  show ?case by (subst read_str_loop.simps) (simp add: read_def)
next
  case (Cons b bs)
  then have "b \<noteq> 0" and "0 \<notin> set bs" by auto
  then show ?case
    using Cons.IH [of "acc @ [b]"]
    by (subst read_str_loop.simps) (simp add: read_def)
qed

lemma read_str_loop_Some_zero:
  assumes "read_str_loop f acc = Some r"
  shows "0 \<in> set f"
proof (rule read_str_loop.raw_induct [where P = "\<lambda>g a y. 0 \<in> set g", OF _ assms])
  fix loop :: "stream \<Rightarrow> byte list \<Rightarrow> (byte list \<times> stream) option"
  fix g :: stream and a :: "byte list" and y :: "byte list \<times> stream"
  assume IH: "\<And>g a y. loop g a = Some y \<Longrightarrow> 0 \<in> set g"
  assume step: "(let byte = fst (read g 1); f' = snd (read g 1) in
      if byte = [0] then Some (a, f') else loop f' (a @ byte)) = Some y"
  show "0 \<in> set g"
  proof (cases g)
    case Nil
    with step IH [of "[]" a y] show ?thesis by (simp add: read_def)
  next
    case (Cons b bs)
    with step IH [of bs "a @ [b]" y] show ?thesis
      by (cases "b = 0") (simp_all add: read_def)
  qed
qed

lemma read_str_loop_hangs: "0 \<notin> set f \<Longrightarrow> read_str_loop f acc = None"
  using read_str_loop_Some_zero [of f acc] by (cases "read_str_loop f acc") auto

lemma bit_length_eval:
  "bit_length 0 = 0"
  "bit_length (Suc 0) = 1"
  "bit_length 1 = 1"
  "bit_length (numeral k) = Suc (bit_length (numeral k div 2))"
  by (subst bit_length.simps, simp)+

text \<open>\<open>100.0 / 100 = 1.0\<close> and \<open>1.0 * 100 = 100.0\<close>, on bit patterns.\<close>

lemma ieee_div100_100: "ieee_div100 0x42C80000 = 0x3F800000"
  apply (simp only: ieee_div100_def ieee_scale_def Let_def)
  apply (simp add: f32_exponent_def f32_fraction_def f32_sign_def)
  apply (simp add: floor_log2_def bit_length_eval)
  apply (simp add: round_half_even_def)
  done


lemma ieee_div100_0: "ieee_div100 0 = 0"
  by (simp add: ieee_div100_def ieee_scale_def f32_exponent_def f32_fraction_def f32_sign_def)

text \<open>The loop, unfolded along the stream: these equations evaluate it.\<close>

lemma read_str_loop_code [code]:
  "read_str_loop [] acc = None"
  "read_str_loop (b # f) acc = (if b = 0 then Some (acc, f) else read_str_loop f (acc @ [b]))"
proof -
  show "read_str_loop [] acc = None"
    by (rule read_str_loop_hangs) simp
  show "read_str_loop (b # f) acc = (if b = 0 then Some (acc, f) else read_str_loop f (acc @ [b]))"
    by (subst read_str_loop.simps) (simp add: read_def)
qed

lemma read_str_terminated:
  "0 \<notin> set bs \<Longrightarrow>
   read_str L (bs @ 0 # rest) = obind (decode L bs) (\<lambda>s. Returns (s, rest))"
  by (simp add: read_str_def read_str_loop_found)

lemma read_str_no_terminator: "0 \<notin> set f \<Longrightarrow> read_str L f = Hangs"
  by (simp add: read_str_def read_str_loop_hangs)

lemma obind_Returns_iff:
  "obind m k = Returns y \<longleftrightarrow> (\<exists>x. m = Returns x \<and> k x = Returns y)"
  by (cases m) (simp_all add: obind_def)

lemma obind_Returns [simp]: "obind (Returns x) k = k x"
  by (simp add: obind_def)

lemma obind_Raises [simp]: "obind (Raises e) k = Raises e"
  by (simp add: obind_def)

lemma obind_Hangs [simp]: "obind Hangs k = Hangs"
  by (simp add: obind_def)

lemma obind_assoc: "obind (obind m k) h = obind m (\<lambda>x. obind (k x) h)"
  by (cases m) simp_all

lemmas eval_defs = read_def read_i16_def read_i32_def read_f32_def read_fstr_def read_str_def
  decode_def encode_def read_vector3_f32_def read_vector4_f32_def read_vector2_f32_def
  signed_of_def lit_def ascii_ieee_lib_def ascii_decode_def ascii_encode_def
  BoneData_load_data_def BoneData_init_def vector3_div100_def load_format_code_def load_bones_def
  load_dummies_def load_data_def SkeletonData_init_def read_str_loop_code
  ieee_div100_100 ieee_div100_0











lemma length_le_bytes [simp]: "length (le_bytes n v) = n"
  by (induction n arbitrary: v) simp_all







lemmas enabled_defs = positions_enabled_def rotations_enabled_def normals_enabled_def
  alpha_enabled_def uv1_enabled_def uv2_enabled_def uv3_enabled_def uv4_enabled_def
  textureanim_enabled_def scale_enabled_def

lemma same_motion_trans [trans]: "same_motion a b \<Longrightarrow> same_motion b c \<Longrightarrow> same_motion a c"
  by (simp add: same_motion_def)

lemma frame_stages_same_motion:
  "frame_normal c f = Returns (c', f') \<Longrightarrow> same_motion c c'"
  "frame_alpha c a f = Returns (c', a', f') \<Longrightarrow> same_motion c c'"
  "frame_uv1 c f = Returns (c', f') \<Longrightarrow> same_motion c c'"
  "frame_uv2 c f = Returns (c', f') \<Longrightarrow> same_motion c c'"
  "frame_uv3 c f = Returns (c', f') \<Longrightarrow> same_motion c c'"
  "frame_uv4 c f = Returns (c', f') \<Longrightarrow> same_motion c c'"
  "frame_texture_animation c a f = Returns (c', f') \<Longrightarrow> same_motion c c'"
  "frame_scale c a f = Returns (c', f') \<Longrightarrow> same_motion c c'"
  by (auto simp: frame_normal_def frame_alpha_def frame_uv1_def frame_uv2_def frame_uv3_def
      frame_uv4_def frame_texture_animation_def frame_scale_def same_motion_def
      obind_Returns_iff split: if_splits option.splits)

lemma frame_position_rotation_both:
  assumes "frame_position_rotation L c f = Returns (c', f')" and "positions_enabled c"
  shows "tracktype c' = tracktype c
    \<and> length (ChannelData.position c') = Suc (length (ChannelData.position c))
    \<and> ChannelData.rotation c' = ChannelData.rotation c"
  using assms by (auto simp: frame_position_rotation_def obind_Returns_iff)

lemma load_channel_frame_stages:
  assumes "load_channel_frame L c a f = Returns (c', a', f')"
  shows "\<exists>c1 f1 c2 f2 c3 f3 c4 f4 c5 f5 c6 f6 c7 f7 c8 f8.
       frame_position_rotation L c f = Returns (c1, f1)
     \<and> frame_normal c1 f1 = Returns (c2, f2)
     \<and> frame_alpha c2 a f2 = Returns (c3, a', f3)
     \<and> frame_uv1 c3 f3 = Returns (c4, f4)
     \<and> frame_uv2 c4 f4 = Returns (c5, f5)
     \<and> frame_uv3 c5 f5 = Returns (c6, f6)
     \<and> frame_uv4 c6 f6 = Returns (c7, f7)
     \<and> frame_texture_animation c7 a' f7 = Returns (c8, f8)
     \<and> frame_scale c8 a' f8 = Returns (c', f')"
  using assms by (clarsimp simp: load_channel_frame_def obind_Returns_iff)

lemma load_channel_frame_same_motion:
  assumes "load_channel_frame L c a f = Returns (c', a', f')"
  obtains c1 f1 where "frame_position_rotation L c f = Returns (c1, f1)" "same_motion c1 c'"
proof -
  from assms obtain c1 f1 c2 f2 c3 f3 c4 f4 c5 f5 c6 f6 c7 f7 c8 f8 where
    s: "frame_position_rotation L c f = Returns (c1, f1)"
       "frame_normal c1 f1 = Returns (c2, f2)"
       "frame_alpha c2 a f2 = Returns (c3, a', f3)"
       "frame_uv1 c3 f3 = Returns (c4, f4)"
       "frame_uv2 c4 f4 = Returns (c5, f5)"
       "frame_uv3 c5 f5 = Returns (c6, f6)"
       "frame_uv4 c6 f6 = Returns (c7, f7)"
       "frame_texture_animation c7 a' f7 = Returns (c8, f8)"
       "frame_scale c8 a' f8 = Returns (c', f')"
    using load_channel_frame_stages [OF assms] by blast
  have "same_motion c1 c2" using s(2) by (rule frame_stages_same_motion)
  also have "same_motion c2 c3" using s(3) by (rule frame_stages_same_motion)
  also have "same_motion c3 c4" using s(4) by (rule frame_stages_same_motion)
  also have "same_motion c4 c5" using s(5) by (rule frame_stages_same_motion)
  also have "same_motion c5 c6" using s(6) by (rule frame_stages_same_motion)
  also have "same_motion c6 c7" using s(7) by (rule frame_stages_same_motion)
  also have "same_motion c7 c8" using s(8) by (rule frame_stages_same_motion)
  also have "same_motion c8 c'" using s(9) by (rule frame_stages_same_motion)
  finally have "same_motion c1 c'" .
  with s(1) show ?thesis by (rule that)
qed

lemma load_channel_frame_position:
  assumes "load_channel_frame L c a f = Returns (c', a', f')" and "positions_enabled c"
  shows "tracktype c' = tracktype c
    \<and> length (ChannelData.position c') = Suc (length (ChannelData.position c))
    \<and> ChannelData.rotation c' = ChannelData.rotation c"
proof -
  from assms(1) obtain c1 f1 where
    s: "frame_position_rotation L c f = Returns (c1, f1)" "same_motion c1 c'"
    by (rule load_channel_frame_same_motion)
  with frame_position_rotation_both [OF s(1) assms(2)] show ?thesis
    by (simp add: same_motion_def)
qed

lemma load_channel_frame_tracktype:
  assumes "load_channel_frame L c a f = Returns (c', a', f')"
  shows "tracktype c' = tracktype c"
proof -
  from assms(1) obtain c1 f1 where
    s: "frame_position_rotation L c f = Returns (c1, f1)" "same_motion c1 c'"
    by (rule load_channel_frame_same_motion)
  moreover have "tracktype c1 = tracktype c"
    using s(1) by (auto simp: frame_position_rotation_def obind_Returns_iff split: if_splits)
  ultimately show ?thesis by (simp add: same_motion_def)
qed

lemma load_channel_frame_step:
  "load_channel_frame L c a f = Returns (c', a', f') \<Longrightarrow> frames_step 1 c c'"
  using load_channel_frame_position [of L c a f c' a' f']
    load_channel_frame_tracktype [of L c a f c' a' f']
  by (simp add: frames_step_def)

lemma load_frame_inv:
  assumes "load_frame L n j chans a f = Returns (chans', a', f')"
  shows "length chans' = length chans
    \<and> (\<forall>k < length chans. (k < j \<longrightarrow> chans' ! k = chans ! k)
          \<and> (j \<le> k \<and> k < j + n \<longrightarrow> frames_step 1 (chans ! k) (chans' ! k))
          \<and> (j + n \<le> k \<longrightarrow> chans' ! k = chans ! k))"
  using assms
proof (induction n arbitrary: j chans a f)
  case 0
  then show ?case by auto
next
  case (Suc n)
  from Suc.prems obtain c a1 f1 where
    j: "j < length chans"
    and c: "load_channel_frame L (chans ! j) a f = Returns (c, a1, f1)"
    and rest: "load_frame L n (Suc j) (chans[j := c]) a1 f1 = Returns (chans', a', f')"
    by (auto simp: obind_Returns_iff split: if_splits)
  note IH = Suc.IH [OF rest]
  have len: "length chans' = length chans" using IH by simp
  have step: "frames_step 1 (chans ! j) c" using c by (rule load_channel_frame_step)
  have "(k < j \<longrightarrow> chans' ! k = chans ! k)
      \<and> (j \<le> k \<and> k < j + Suc n \<longrightarrow> frames_step 1 (chans ! k) (chans' ! k))
      \<and> (j + Suc n \<le> k \<longrightarrow> chans' ! k = chans ! k)" if k: "k < length chans" for k
  proof -
    from IH k have ih: "(k < Suc j \<longrightarrow> chans' ! k = chans[j := c] ! k)
      \<and> (Suc j \<le> k \<and> k < Suc j + n \<longrightarrow> frames_step 1 (chans[j := c] ! k) (chans' ! k))
      \<and> (Suc j + n \<le> k \<longrightarrow> chans' ! k = chans[j := c] ! k)"
      by simp
    show ?thesis
    proof (cases "k = j")
      case True
      with ih j step show ?thesis by simp
    next
      case False
      with ih show ?thesis by (auto simp: less_Suc_eq)
    qed
  qed
  with len show ?case by blast
qed

lemma frames_step_compose:
  "frames_step m a b \<Longrightarrow> frames_step n b c \<Longrightarrow> frames_step (m + n) a c"
  by (auto simp: frames_step_def positions_enabled_def)

lemma load_frames_inv:
  assumes "load_frames L n chans a f = Returns (chans', a', f')"
  shows "length chans' = length chans
    \<and> (\<forall>k < length chans. frames_step n (chans ! k) (chans' ! k))"
  using assms
proof (induction n arbitrary: chans a f)
  case 0
  then show ?case by (simp add: frames_step_def)
next
  case (Suc n)
  from Suc.prems obtain chans1 a1 f1 where
    one: "load_frame L (length chans) 0 chans a f = Returns (chans1, a1, f1)"
    and rest: "load_frames L n chans1 a1 f1 = Returns (chans', a', f')"
    by (auto simp: obind_Returns_iff)
  from load_frame_inv [OF one] have
    l1: "length chans1 = length chans"
    and s1: "\<And>k. k < length chans \<Longrightarrow> frames_step 1 (chans ! k) (chans1 ! k)"
    by simp_all
  from Suc.IH [OF rest] l1 have
    l2: "length chans' = length chans"
    and s2: "\<And>k. k < length chans \<Longrightarrow> frames_step n (chans1 ! k) (chans' ! k)"
    by simp_all
  have "frames_step (Suc n) (chans ! k) (chans' ! k)" if "k < length chans" for k
    using frames_step_compose [OF s1 [OF that] s2 [OF that]] by simp
  with l2 show ?case by simp
qed

lemma setup_channels_loop_fresh:
  assumes "setup_channels_loop n chans f = Returns (chans', f')"
    and "list_all (\<lambda>c. ChannelData.position c = [] \<and> ChannelData.rotation c = []) chans"
  shows "list_all (\<lambda>c. ChannelData.position c = [] \<and> ChannelData.rotation c = []) chans'"
  using assms
proof (induction n arbitrary: chans f)
  case 0
  then show ?case by simp
next
  case (Suc n)
  from Suc.prems(1) obtain tt tid g where
    "setup_channels_loop n (chans @ [ChannelData_init tt tid]) g = Returns (chans', f')"
    by (auto simp: obind_Returns_iff)
  moreover have "list_all (\<lambda>c. ChannelData.position c = [] \<and> ChannelData.rotation c = [])
      (chans @ [ChannelData_init tt tid])"
    using Suc.prems(2) by (simp add: ChannelData_init_def)
  ultimately show ?case by (rule Suc.IH)
qed

lemma loops_numeral:
  "load_frames L (numeral k) chans a f =
     obind (load_frame L (length chans) 0 chans a f) (\<lambda>(chans, a, f).
     load_frames L (pred_numeral k) chans a f)"
  "setup_channels_loop (numeral k) chans f =
     obind (read_i32 f) (\<lambda>(tt, f).
     obind (read_i32 f) (\<lambda>(track_id, f).
     setup_channels_loop (pred_numeral k) (chans @ [ChannelData_init tt track_id]) f))"
  "load_records L (numeral k) i d v recs f =
     (let records = recs @ [BoneData_init] in
      obind (BoneData_load_data L (records ! i) f d v) (\<lambda>(b, f).
      load_records L (pred_numeral k) (Suc i) d v (records[i := b]) f))"
  by (simp_all add: numeral_eq_Suc)

lemmas anim_eval_defs = AnimationData_load_data_def load_settings_def setup_channels_def
  load_channel_data_def load_channel_frame_def frame_position_rotation_def frame_normal_def
  frame_alpha_def frame_uv1_def frame_uv2_def frame_uv3_def frame_uv4_def
  frame_texture_animation_def frame_scale_def enabled_defs ChannelData_init_def
  AnimationData_init_def loops_numeral
  TrackType_POSITION_def TrackType_ROTATION_def TrackType_NORMAL_def TrackType_ALPHA_def
  TrackType_UV1_def TrackType_UV2_def TrackType_UV3_def TrackType_UV4_def
  TrackType_TEXTUREANIM_def TrackType_SCALE_def

lemma zmo_position_rotation_eval:
  "AnimationData_load_data ascii_ieee_lib zmo_position_rotation = Returns zmo_position_rotation_decoded"
  by (simp add: zmo_position_rotation_def zmo_position_rotation_decoded_def eval_defs anim_eval_defs)

lemma read_f32_eq:
  "read_f32 f = (if 4 \<le> length f then Returns (f32_of (take 4 f), drop 4 f) else Raises StructError)"
  by (auto simp: read_f32_def read_def f32_of_def)

lemma read_i16_eq:
  "read_i16 f = (if 2 \<le> length f then Returns (signed_of 16 (le_uint (take 2 f)), drop 2 f)
     else Raises StructError)"
  by (auto simp: read_i16_def read_def)

lemma read_i32_eq:
  "read_i32 f = (if 4 \<le> length f then Returns (signed_of 32 (le_uint (take 4 f)), drop 4 f)
     else Raises StructError)"
  by (auto simp: read_i32_def read_def)

lemma read_vector3_f32_eq:
  "read_vector3_f32 f =
     (if 12 \<le> length f then Returns (vector3_of (take 12 f), drop 12 f) else Raises StructError)"
  by (auto simp: read_vector3_f32_def read_f32_eq vector3_of_def take_drop min_def)

lemma read_vector2_f32_eq:
  "read_vector2_f32 f =
     (if 8 \<le> length f then Returns (vector2_of (take 8 f), drop 8 f) else Raises StructError)"
  by (auto simp: read_vector2_f32_def read_f32_eq vector2_of_def take_drop min_def)

lemma fixed_readerI:
  assumes "\<And>f. rd f = (if k \<le> length f then Returns (dec (take k f), drop k f) else Raises e)"
  shows "fixed_reader k rd"
  unfolding fixed_reader_def
proof (intro allI)
  fix f
  show "if k \<le> length f then \<exists>x. \<forall>g. rd (take k f @ g) = Returns (x, g) else \<exists>e. rd f = Raises e"
  proof (cases "k \<le> length f")
    case True
    then have "rd (take k f @ g) = Returns (dec (take k f), g)" for g
      by (simp add: assms)
    with True show ?thesis by auto
  next
    case False
    then show ?thesis by (auto simp: assms)
  qed
qed

lemma fixed_reader_Returns:
  assumes "fixed_reader k rd" and "rd f = Returns (x, r)"
  shows "k \<le> length f \<and> r = drop k f \<and> (\<forall>g. rd (take k f @ g) = Returns (x, g))"
proof -
  from assms have k: "k \<le> length f"
    unfolding fixed_reader_def by (metis outcome.distinct(1))
  with assms(1) obtain y where y: "\<And>g. rd (take k f @ g) = Returns (y, g)"
    unfolding fixed_reader_def by metis
  from y [of "drop k f"] assms(2) have "y = x" "r = drop k f" by simp_all
  with k y show ?thesis by simp
qed

lemma fixed_reader_short:
  "fixed_reader k rd \<Longrightarrow> length f < k \<Longrightarrow> \<exists>e. rd f = Raises e"
  unfolding fixed_reader_def by (metis not_less)

lemma fixed_reader_extends: "fixed_reader k rd \<Longrightarrow> extends rd"
  unfolding extends_def
proof (intro allI impI)
  fix f x r g
  assume fr: "fixed_reader k rd" and "rd f = Returns (x, r)"
  from fixed_reader_Returns [OF this] have
    k: "k \<le> length f" and r: "r = drop k f" and a: "\<And>h. rd (take k f @ h) = Returns (x, h)"
    by simp_all
  have "f @ g = take k f @ (drop k f @ g)" by simp
  then have "rd (f @ g) = rd (take k f @ (drop k f @ g))" by (rule arg_cong)
  with a r show "rd (f @ g) = Returns (x, r @ g)" by simp
qed

lemma fixed_reader_obind:
  assumes a: "fixed_reader k rd" and b: "\<And>x. fixed_reader m (h x)"
  shows "fixed_reader (k + m) (\<lambda>f. obind (rd f) (\<lambda>(x, f). h x f))"
  unfolding fixed_reader_def
proof (intro allI)
  fix f
  let ?R = "\<lambda>f. obind (rd f) (\<lambda>(x, f). h x f)"
  show "if k + m \<le> length f then \<exists>x. \<forall>g. ?R (take (k + m) f @ g) = Returns (x, g)
        else \<exists>e. ?R f = Raises e"
  proof (cases "k + m \<le> length f")
    case True
    then have k: "k \<le> length f" by simp
    with a obtain x where x: "\<And>g. rd (take k f @ g) = Returns (x, g)"
      unfolding fixed_reader_def by metis
    from True have "m \<le> length (drop k f)" by simp
    with b [of x] obtain y where y: "\<And>g. h x (take m (drop k f) @ g) = Returns (y, g)"
      unfolding fixed_reader_def by metis
    have split: "take (k + m) f = take k f @ take m (drop k f)"
      by (simp add: take_add)
    have "?R (take (k + m) f @ g) = Returns (y, g)" for g
      by (simp add: split x y)
    with True show ?thesis by auto
  next
    case False
    show ?thesis
    proof (cases "k \<le> length f")
      case True
      with a obtain x where x: "\<And>g. rd (take k f @ g) = Returns (x, g)"
        unfolding fixed_reader_def by metis
      from x [of "drop k f"] have rx: "rd f = Returns (x, drop k f)" by simp
      from False True have "length (drop k f) < m" by simp
      from fixed_reader_short [OF b this] rx False show ?thesis by auto
    next
      case nk: False
      then have "length f < k" by simp
      from fixed_reader_short [OF a this] False show ?thesis by auto
    qed
  qed
qed

lemma fixed_reader_Returns_const: "fixed_reader 0 (\<lambda>f. Returns (x, f))"
  by (simp add: fixed_reader_def)

lemma fixed_read_f32: "fixed_reader 4 read_f32"
  by (rule fixed_readerI [OF read_f32_eq])

lemma fixed_read_i16: "fixed_reader 2 read_i16"
  by (rule fixed_readerI [OF read_i16_eq])

lemma fixed_read_i32: "fixed_reader 4 read_i32"
  by (rule fixed_readerI [OF read_i32_eq])

lemma fixed_read_vector3_f32: "fixed_reader 12 read_vector3_f32"
  by (rule fixed_readerI [OF read_vector3_f32_eq])

lemma fixed_read_vector2_f32: "fixed_reader 8 read_vector2_f32"
  by (rule fixed_readerI [OF read_vector2_f32_eq])

lemma vertex_pass_exact:
  assumes rd: "\<And>f. rd f = (if k \<le> length f then Returns (dec (take k f), drop k f)
      else Raises StructError)"
    and run: "vertex_pass rd st n i vs f = Returns (vs', f')"
  shows "length vs' = length vs \<and> k * n \<le> length f \<and> f' = drop (k * n) f
    \<and> (\<forall>j < length vs. vs' ! j =
          (if i \<le> j \<and> j < i + n then st (dec (take k (drop (k * (j - i)) f))) (vs ! j)
           else vs ! j))"
  using run
proof (induction n arbitrary: i vs f)
  case 0
  then show ?case by auto
next
  case (Suc n)
  from Suc.prems have k: "k \<le> length f" and i: "i < length vs"
    and rest: "vertex_pass rd st n (Suc i) (vs[i := st (dec (take k f)) (vs ! i)]) (drop k f)
      = Returns (vs', f')"
    using rd [of f] by (auto simp: obind_Returns_iff split: if_splits)
  note IH = Suc.IH [OF rest]
  from IH have len: "length vs' = length vs" by simp
  from IH have "k * n \<le> length f - k" by simp
  with k have sz: "k * Suc n \<le> length f" by simp
  from IH have f': "f' = drop (k * Suc n) f" by (simp add: add.commute)
  have "vs' ! j = (if i \<le> j \<and> j < i + Suc n
          then st (dec (take k (drop (k * (j - i)) f))) (vs ! j) else vs ! j)"
    if j: "j < length vs" for j
  proof -
    from IH j have ih: "vs' ! j =
      (if Suc i \<le> j \<and> j < Suc i + n
       then st (dec (take k (drop (k * (j - Suc i)) (drop k f))))
              (vs[i := st (dec (take k f)) (vs ! i)] ! j)
       else vs[i := st (dec (take k f)) (vs ! i)] ! j)"
      by simp
    show ?thesis
    proof (cases "j = i")
      case True
      with ih i show ?thesis by simp
    next
      case False
      show ?thesis
      proof (cases "i < j")
        case True
        then have "k * (j - Suc i) + k = k * (j - i)"
          by (metis Suc_diff_Suc mult_Suc_right add.commute)
        with ih True False show ?thesis by simp
      next
        case nlt: False
        with ih False show ?thesis by simp
      qed
    qed
  qed
  with len sz f' show ?case by blast
qed

lemmas VertexFormat_defs = VertexFormat_POSITION_def VertexFormat_NORMAL_def
  VertexFormat_COLOR_def VertexFormat_BONEWEIGHT_def VertexFormat_BONEINDEX_def
  VertexFormat_TANGENT_def VertexFormat_UV1_def VertexFormat_UV2_def VertexFormat_UV3_def
  VertexFormat_UV4_def

lemmas mesh_enabled_defs = mesh_positions_enabled_def mesh_normals_enabled_def colors_enabled_def
  bones_enabled_def tangents_enabled_def mesh_uv1_enabled_def mesh_uv2_enabled_def
  mesh_uv3_enabled_def mesh_uv4_enabled_def

lemma load_attributes_position_uv2:
  assumes "format self = 258"
  shows "load_attributes vc self f =
     obind (vertex_pass read_vector3_f32 (\<lambda>x v. v\<lparr>Vertex.position := x\<rparr>) (nat vc) 0 (vertices self) f)
       (\<lambda>(vs, f).
     obind (vertex_pass read_vector2_f32 (\<lambda>x v. v\<lparr>uv_layers := (uv_layers v)[1 := Some x]\<rparr>)
              (nat vc) 0 vs f) (\<lambda>(vs, f).
     Returns (self\<lparr>vertices := vs\<rparr>, f)))"
  using assms
  by (auto simp: load_attributes_def gated_pass_def mesh_enabled_defs VertexFormat_defs
      obind_def split: outcome.splits prod.splits)

lemma read_str_Returns:
  assumes "read_str L f = Returns (s, r)"
  shows "\<exists>bs. 0 \<notin> set bs \<and> f = bs @ 0 # r \<and> decode L bs = Returns s"
proof -
  from assms obtain acc r' where lp: "read_str_loop f [] = Some (acc, r')"
    by (auto simp: read_str_def split: option.splits)
  then have "0 \<in> set f" by (rule read_str_loop_Some_zero)
  then obtain bs rest where f: "f = bs @ 0 # rest" and bs: "0 \<notin> set bs"
    by (auto dest!: split_list_first)
  from read_str_loop_found [OF bs, of rest "[]"] lp f have "acc = bs" "r' = rest" by simp_all
  with assms lp f bs show ?thesis
    by (auto simp: read_str_def obind_Returns_iff)
qed

lemma append_loop_suffix:
  assumes "\<And>f x r. rd f = Returns (x, r) \<Longrightarrow> \<exists>p. f = p @ r"
    and "append_loop rd n xs f = Returns (ys, r)"
  shows "\<exists>p. f = p @ r"
  using assms(2)
proof (induction n arbitrary: xs f)
  case 0
  then show ?case by simp
next
  case (Suc n)
  from Suc.prems obtain x g where a: "rd f = Returns (x, g)"
    and b: "append_loop rd n (xs @ [x]) g = Returns (ys, r)"
    by (auto simp: obind_Returns_iff)
  from assms(1) [OF a] Suc.IH [OF b] show ?case by (metis append.assoc)
qed

lemma fixed_reader_suffix:
  "fixed_reader k rd \<Longrightarrow> rd f = Returns (x, r) \<Longrightarrow> \<exists>p. f = p @ r"
  by (metis fixed_reader_Returns append_take_drop_id)

lemma load_header_Returns:
  assumes "load_header L self f = Returns ((self', version, vc), r)"
  shows "(\<exists>p. f = p @ r)
    \<and> vertices self' = vertices self @ replicate (nat vc) Vertex_init
    \<and> (version = 7 \<or> version = 8)"
proof -
  from assms obtain ident f1 fmt f2 bmin f3 bmax f4 bc f5 bns f6 where
    s: "read_str L f = Returns (ident, f1)" "read_i32 f1 = Returns (fmt, f2)"
      "read_vector3_f32 f2 = Returns (bmin, f3)" "read_vector3_f32 f3 = Returns (bmax, f4)"
      "read_i16 f4 = Returns (bc, f5)"
      "append_loop read_i16 (nat bc) (MeshImportData.bones self) f5 = Returns (bns, f6)"
      "read_i16 f6 = Returns (vc, r)"
    and v: "version = 7 \<or> version = 8"
    and vs: "vertices self' = vertices self @ replicate (nat vc) Vertex_init"
    by (auto simp: load_header_def obind_Returns_iff Let_def split: if_splits)
  from read_str_Returns [OF s(1)] obtain p1 where "f = p1 @ f1"
    by (metis append.assoc append_Cons append_Nil)
  moreover from fixed_reader_suffix [OF fixed_read_i32 s(2)] obtain p2 where "f1 = p2 @ f2" ..
  moreover from fixed_reader_suffix [OF fixed_read_vector3_f32 s(3)] obtain p3 where "f2 = p3 @ f3" ..
  moreover from fixed_reader_suffix [OF fixed_read_vector3_f32 s(4)] obtain p4 where "f3 = p4 @ f4" ..
  moreover from fixed_reader_suffix [OF fixed_read_i16 s(5)] obtain p5 where "f4 = p5 @ f5" ..
  moreover have "\<exists>p. f5 = p @ f6"
    by (rule append_loop_suffix [where rd = read_i16, OF _ s(6)])
      (rule fixed_reader_suffix [OF fixed_read_i16])
  then obtain p6 where "f5 = p6 @ f6" ..
  moreover from fixed_reader_suffix [OF fixed_read_i16 s(7)] obtain p7 where "f6 = p7 @ r" ..
  ultimately have "f = (p1 @ p2 @ p3 @ p4 @ p5 @ p6 @ p7) @ r" by simp
  with v vs show ?thesis by blast
qed

lemma gated_pass_fields:
  "gated_pass e rd st n self f = Returns (self', f') \<Longrightarrow>
   format self' = format self \<and> pool self' = pool self"
  by (auto simp: gated_pass_def obind_Returns_iff split: if_splits)

lemma load_attributes_fields:
  assumes "load_attributes vc self f = Returns (self', f')"
  shows "format self' = format self \<and> pool self' = pool self"
proof -
  from assms obtain s1 f1 s2 f2 s3 f3 s4 f4 s5 f5 s6 f6 s7 f7 s8 f8
    and e1 e2 e3 e4 e5 e6 e7 e8 e9 :: bool where
    "gated_pass e1 read_vector3_f32 (\<lambda>x v. v\<lparr>Vertex.position := x\<rparr>) (nat vc) self f
       = Returns (s1, f1)"
    "gated_pass e2 read_vector3_f32 (\<lambda>x v. v\<lparr>Vertex.normal := x\<rparr>) (nat vc) s1 f1
       = Returns (s2, f2)"
    "gated_pass e3 read_color (\<lambda>(c, a) v. v\<lparr>color := ColorAndAlpha c a\<rparr>) (nat vc) s2 f2
       = Returns (s3, f3)"
    "gated_pass e4 read_weights_indices (\<lambda>(w, ix) v. v\<lparr>bone_weights := w, bone_indices := ix\<rparr>)
       (nat vc) s3 f3 = Returns (s4, f4)"
    "gated_pass e5 read_vector3_f32 (\<lambda>x v. v\<lparr>tangent := x\<rparr>) (nat vc) s4 f4 = Returns (s5, f5)"
    "gated_pass e6 read_vector2_f32 (\<lambda>x v. v\<lparr>uv_layers := (uv_layers v)[0 := Some x]\<rparr>)
       (nat vc) s5 f5 = Returns (s6, f6)"
    "gated_pass e7 read_vector2_f32 (\<lambda>x v. v\<lparr>uv_layers := (uv_layers v)[1 := Some x]\<rparr>)
       (nat vc) s6 f6 = Returns (s7, f7)"
    "gated_pass e8 read_vector2_f32 (\<lambda>x v. v\<lparr>uv_layers := (uv_layers v)[2 := Some x]\<rparr>)
       (nat vc) s7 f7 = Returns (s8, f8)"
    "gated_pass e9 read_vector2_f32 (\<lambda>x v. v\<lparr>uv_layers := (uv_layers v)[3 := Some x]\<rparr>)
       (nat vc) s8 f8 = Returns (self', f')"
    by (clarsimp simp: load_attributes_def obind_Returns_iff Let_def)
  then show ?thesis by (simp add: gated_pass_fields)
qed

lemma load_tables_fields:
  "load_tables self f = Returns (self', f') \<Longrightarrow>
   format self' = format self \<and> vertices self' = vertices self \<and> pool self' = pool self"
  by (auto simp: load_tables_def obind_Returns_iff)

lemma load_header_format:
  "load_attributes vc self' r = Returns (self1, r1) \<Longrightarrow>
   load_tables self1 r1 = Returns (self2, r2) \<Longrightarrow>
   format self2 = format self' \<and> vertices self2 = vertices self1"
  using load_attributes_fields load_tables_fields by metis

lemma mesh_loops_numeral:
  "append_loop rd (numeral k) xs f =
     obind (rd f) (\<lambda>(x, f). append_loop rd (pred_numeral k) (xs @ [x]) f)"
  "vertex_pass rd st (numeral k) i vs f =
     obind (rd f) (\<lambda>(x, f).
     if i < length vs then vertex_pass rd st (pred_numeral k) (Suc i) (vs[i := st x (vs ! i)]) f
     else Raises IndexError)"
  "replicate (numeral k) y = y # replicate (pred_numeral k) y"
  by (simp_all add: numeral_eq_Suc)

lemmas mesh_eval_defs = load_def load_sections_def load_header_def load_attributes_def
  load_tables_def gated_pass_def mesh_enabled_defs VertexFormat_defs MeshImportData_init_def
  mesh_loops_numeral read_vector3_i16_def read_vector4_i16_def read_color_def
  read_weights_indices_def

lemma zms7_two_vertices_eval:
  "load ascii_ieee_lib MeshImportData_init zms7_two_vertices = Returns zms7_two_vertices_decoded"
  by (simp add: zms7_two_vertices_def zms7_two_vertices_decoded_def eval_defs mesh_eval_defs
      Vertex_init_def)

lemma extendsI:
  "(\<And>f x r g. rd f = Returns (x, r) \<Longrightarrow> rd (f @ g) = Returns (x, r @ g)) \<Longrightarrow> extends rd"
  by (simp add: extends_def)

lemma extendsD:
  "extends rd \<Longrightarrow> rd f = Returns (x, r) \<Longrightarrow> rd (f @ g) = Returns (x, r @ g)"
  by (simp add: extends_def)

lemma extends_Returns: "extends (\<lambda>f. Returns (x, f))"
  by (simp add: extends_def)

lemma extends_Raises: "extends (\<lambda>f. Raises e)"
  by (simp add: extends_def)

lemma extends_obind:
  assumes "extends rd" and "\<And>x. extends (h x)"
  shows "extends (\<lambda>f. obind (rd f) (\<lambda>(x, f). h x f))"
proof (rule extendsI)
  fix f y r g
  assume "obind (rd f) (\<lambda>(x, f). h x f) = Returns (y, r)"
  then obtain x f1 where a: "rd f = Returns (x, f1)" and b: "h x f1 = Returns (y, r)"
    by (auto simp: obind_Returns_iff)
  from extendsD [OF assms(1) a, of g] extendsD [OF assms(2) b, of g]
  show "obind (rd (f @ g)) (\<lambda>(x, f). h x f) = Returns (y, r @ g)" by simp
qed

lemma extends_option:
  assumes "\<And>v. extends (h v)"
  shows "extends (\<lambda>f. case c of None \<Rightarrow> Raises e | Some v \<Rightarrow> h v f)"
  using assms by (cases c) (simp_all add: extends_Raises)

lemma extends_if:
  "extends a \<Longrightarrow> extends b \<Longrightarrow> extends (\<lambda>f. if c then a f else b f)"
  by (simp add: extends_def)

lemma extends_read_str: "extends (read_str L)"
proof (rule extendsI)
  fix f s r g
  assume "read_str L f = Returns (s, r)"
  from read_str_Returns [OF this] obtain bs where
    bs: "0 \<notin> set bs" and f: "f = bs @ 0 # r" and d: "decode L bs = Returns s"
    by blast
  from f have "f @ g = bs @ 0 # (r @ g)" by simp
  then show "read_str L (f @ g) = Returns (s, r @ g)"
    by (simp add: read_str_terminated [OF bs] d)
qed

lemma extends_append_loop:
  assumes "extends rd"
  shows "extends (append_loop rd n xs)"
proof (induction n arbitrary: xs)
  case 0
  show ?case by (simp add: extends_def)
next
  case (Suc n)
  have "extends (\<lambda>f. obind (rd f) (\<lambda>(x, f). append_loop rd n (xs @ [x]) f))"
    by (rule extends_obind [OF assms]) (rule Suc.IH)
  then show ?case by (simp add: extends_def)
qed

lemma extends_vertex_pass:
  assumes "extends rd"
  shows "extends (vertex_pass rd st n i vs)"
proof (induction n arbitrary: i vs)
  case 0
  show ?case by (simp add: extends_def)
next
  case (Suc n)
  have "extends (\<lambda>f. obind (rd f) (\<lambda>(x, f).
      if i < length vs then vertex_pass rd st n (Suc i) (vs[i := st x (vs ! i)]) f
      else Raises IndexError))"
    by (rule extends_obind [OF assms]) (intro extends_if Suc.IH extends_Raises)
  then show ?case by (simp add: extends_def)
qed

lemma extends_gated_pass:
  assumes "extends rd"
  shows "extends (gated_pass e rd st n self)"
proof -
  have "extends (\<lambda>f. if e then obind (vertex_pass rd st n 0 (vertices self) f)
      (\<lambda>(vs, f). Returns (self\<lparr>vertices := vs\<rparr>, f)) else Returns (self, f))"
    by (intro extends_if extends_obind extends_vertex_pass assms extends_Returns)
  then show ?thesis by (simp add: extends_def gated_pass_def)
qed

lemma fixed_read_color: "fixed_reader 16 read_color"
proof -
  have "fixed_reader (4 + (4 + (4 + (4 + 0)))) read_color"
    unfolding read_color_def
    by (intro fixed_reader_obind fixed_read_f32 fixed_reader_Returns_const)
  then show ?thesis by simp
qed

lemma fixed_read_vector4_f32: "fixed_reader 16 (\<lambda>f. read_vector4_f32 f b)"
proof -
  have "fixed_reader (4 + (4 + (4 + (4 + 0)))) (\<lambda>f. read_vector4_f32 f b)"
    unfolding read_vector4_f32_def
    by (cases b; simp only: if_True if_False)
      (intro fixed_reader_obind fixed_read_f32 fixed_reader_Returns_const)+
  then show ?thesis by simp
qed

lemma fixed_read_vector4_i16: "fixed_reader 8 read_vector4_i16"
proof -
  have "fixed_reader (2 + (2 + (2 + (2 + 0)))) read_vector4_i16"
    unfolding read_vector4_i16_def
    by (intro fixed_reader_obind fixed_read_i16 fixed_reader_Returns_const)
  then show ?thesis by simp
qed

lemma fixed_read_vector3_i16: "fixed_reader 6 read_vector3_i16"
proof -
  have "fixed_reader (2 + (2 + (2 + 0))) read_vector3_i16"
    unfolding read_vector3_i16_def
    by (intro fixed_reader_obind fixed_read_i16 fixed_reader_Returns_const)
  then show ?thesis by simp
qed

lemma fixed_read_weights_indices: "fixed_reader 24 read_weights_indices"
proof -
  have "fixed_reader (16 + (8 + 0)) read_weights_indices"
    unfolding read_weights_indices_def
    by (intro fixed_reader_obind fixed_read_vector4_f32 fixed_read_vector4_i16
        fixed_reader_Returns_const)
  then show ?thesis by simp
qed

lemmas extends_readers =
  fixed_reader_extends [OF fixed_read_i16] fixed_reader_extends [OF fixed_read_i32]
  fixed_reader_extends [OF fixed_read_vector3_f32] fixed_reader_extends [OF fixed_read_vector2_f32]
  fixed_reader_extends [OF fixed_read_color] fixed_reader_extends [OF fixed_read_weights_indices]
  fixed_reader_extends [OF fixed_read_vector3_i16] extends_read_str

lemma extends_load_tables: "extends (load_tables self)"
proof -
  have "extends (\<lambda>f.
     obind (read_i16 f) (\<lambda>(index_count, f).
     obind (append_loop read_vector3_i16 (nat index_count) (indices self) f) (\<lambda>(ixs, f).
     obind (read_i16 f) (\<lambda>(material_count, f).
     obind (append_loop read_i16 (nat material_count) (materials self) f) (\<lambda>(ms, f).
     obind (read_i16 f) (\<lambda>(strip_count, f).
     obind (append_loop read_i16 (nat strip_count) (strips self) f) (\<lambda>(ss, f).
     Returns (self\<lparr>indices := ixs, materials := ms, strips := ss\<rparr>, f))))))))"
    by (intro extends_obind extends_append_loop extends_readers extends_Returns)
  then show ?thesis by (simp add: extends_def load_tables_def)
qed

lemma extends_load_attributes: "extends (load_attributes vc self)"
proof -
  have "extends (\<lambda>f.
     obind (gated_pass (mesh_positions_enabled self) read_vector3_f32
              (\<lambda>x v. v\<lparr>Vertex.position := x\<rparr>) (nat vc) self f) (\<lambda>(self, f).
     obind (gated_pass (mesh_normals_enabled self) read_vector3_f32
              (\<lambda>x v. v\<lparr>Vertex.normal := x\<rparr>) (nat vc) self f) (\<lambda>(self, f).
     obind (gated_pass (colors_enabled self) read_color
              (\<lambda>(c, a) v. v\<lparr>color := ColorAndAlpha c a\<rparr>) (nat vc) self f) (\<lambda>(self, f).
     obind (gated_pass (bones_enabled self) read_weights_indices
              (\<lambda>(w, ix) v. v\<lparr>bone_weights := w, bone_indices := ix\<rparr>) (nat vc) self f) (\<lambda>(self, f).
     obind (gated_pass (tangents_enabled self) read_vector3_f32
              (\<lambda>x v. v\<lparr>tangent := x\<rparr>) (nat vc) self f) (\<lambda>(self, f).
     obind (gated_pass (mesh_uv1_enabled self) read_vector2_f32
              (\<lambda>x v. v\<lparr>uv_layers := (uv_layers v)[0 := Some x]\<rparr>) (nat vc) self f) (\<lambda>(self, f).
     obind (gated_pass (mesh_uv2_enabled self) read_vector2_f32
              (\<lambda>x v. v\<lparr>uv_layers := (uv_layers v)[1 := Some x]\<rparr>) (nat vc) self f) (\<lambda>(self, f).
     obind (gated_pass (mesh_uv3_enabled self) read_vector2_f32
              (\<lambda>x v. v\<lparr>uv_layers := (uv_layers v)[2 := Some x]\<rparr>) (nat vc) self f) (\<lambda>(self, f).
     gated_pass (mesh_uv4_enabled self) read_vector2_f32
              (\<lambda>x v. v\<lparr>uv_layers := (uv_layers v)[3 := Some x]\<rparr>) (nat vc) self f)))))))))"
    by (intro extends_obind extends_gated_pass extends_readers)
  then show ?thesis unfolding load_attributes_def [abs_def] Let_def .
qed

lemma extends_load_header: "extends (load_header L self)"
proof -
  have "extends (\<lambda>f.
     obind (read_str L f) (\<lambda>(ident, f).
     case (if ident = lit ''ZMS0007'' then Some (7 :: int)
           else if ident = lit ''ZMS0008'' then Some 8 else None) of
       None \<Rightarrow> Raises RoseParseError
     | Some version \<Rightarrow>
     obind (read_i32 f) (\<lambda>(fmt, f).
     obind (read_vector3_f32 f) (\<lambda>(bmin, f).
     obind (read_vector3_f32 f) (\<lambda>(bmax, f).
     obind (read_i16 f) (\<lambda>(bone_count, f).
     obind (append_loop read_i16 (nat bone_count) (MeshImportData.bones self) f) (\<lambda>(bs, f).
     obind (read_i16 f) (\<lambda>(vert_count, f).
     Returns ((self\<lparr>identifier := ident, format := fmt,
                 bounding_box := \<lparr> bb_min = bmin, bb_max = bmax \<rparr>, MeshImportData.bones := bs,
                 vertices := vertices self @ replicate (nat vert_count) Vertex_init\<rparr>,
               version, vert_count), f)))))))))"
    by (intro extends_obind extends_option extends_append_loop extends_readers extends_Returns)
  moreover have "load_header L self = (\<lambda>f.
     obind (read_str L f) (\<lambda>(ident, f).
     case (if ident = lit ''ZMS0007'' then Some (7 :: int)
           else if ident = lit ''ZMS0008'' then Some 8 else None) of
       None \<Rightarrow> Raises RoseParseError
     | Some version \<Rightarrow>
     obind (read_i32 f) (\<lambda>(fmt, f).
     obind (read_vector3_f32 f) (\<lambda>(bmin, f).
     obind (read_vector3_f32 f) (\<lambda>(bmax, f).
     obind (read_i16 f) (\<lambda>(bone_count, f).
     obind (append_loop read_i16 (nat bone_count) (MeshImportData.bones self) f) (\<lambda>(bs, f).
     obind (read_i16 f) (\<lambda>(vert_count, f).
     Returns ((self\<lparr>identifier := ident, format := fmt,
                 bounding_box := \<lparr> bb_min = bmin, bb_max = bmax \<rparr>, MeshImportData.bones := bs,
                 vertices := vertices self @ replicate (nat vert_count) Vertex_init\<rparr>,
               version, vert_count), f)))))))))"
    by (rule ext) (simp add: load_header_def Let_def cong: option.case_cong)
  ultimately show ?thesis by simp
qed

lemma extends_load_sections: "extends (load_sections L self)"
proof -
  have "extends (\<lambda>f.
     obind (load_header L self f) (\<lambda>(a, f).
     obind (load_attributes (snd (snd a)) (fst a) f) (\<lambda>(self, f).
     obind (load_tables self f) (\<lambda>(self, f).
     Returns ((self, fst (snd a)), f)))))"
    by (intro extends_obind extends_load_header extends_load_attributes extends_load_tables
        extends_Returns)
  moreover have "load_sections L self = (\<lambda>f.
     obind (load_header L self f) (\<lambda>(a, f).
     obind (load_attributes (snd (snd a)) (fst a) f) (\<lambda>(self, f).
     obind (load_tables self f) (\<lambda>(self, f).
     Returns ((self, fst (snd a)), f)))))"
    by (rule ext) (simp add: load_sections_def split_def)
  ultimately show ?thesis by simp
qed

lemma load_sections_pool:
  assumes "load_sections L self bs = Returns ((m, v), r)"
  shows "pool m = pool self"
proof -
  from assms obtain self0 vc f0 self1 f1 where
    h: "load_header L self bs = Returns ((self0, v, vc), f0)"
    and a: "load_attributes vc self0 f0 = Returns (self1, f1)"
    and t: "load_tables self1 f1 = Returns (m, r)"
    by (auto simp: load_sections_def obind_Returns_iff)
  from h have "pool self0 = pool self"
    by (auto simp: load_header_def obind_Returns_iff Let_def split: if_splits)
  with load_attributes_fields [OF a] load_tables_fields [OF t] show ?thesis by simp
qed

lemma zms8_half_pool_sections:
  "load_sections ascii_ieee_lib MeshImportData_init zms8_half_pool
     = Returns ((zms8_empty_decoded, 8), [5])"
  by (simp add: zms8_half_pool_def zms8_empty_decoded_def eval_defs mesh_eval_defs)

lemma le_uint_bounds: "0 \<le> le_uint bs \<and> le_uint bs < 256 ^ length bs"
proof (induction bs)
  case Nil
  show ?case by simp
next
  case (Cons b bs)
  have "0 \<le> uint b" "uint b < 256" using uint_bounded [of b] by simp_all
  with Cons show ?case by simp
qed

lemma le_bytes_le_uint: "le_bytes (length bs) (le_uint bs) = bs"
proof (induction bs)
  case Nil
  show ?case by simp
next
  case (Cons b bs)
  have b: "0 \<le> uint b" "uint b < 256" using uint_bounded [of b] by simp_all
  then have "(uint b + 256 * le_uint bs) mod 256 = uint b"
    and "(uint b + 256 * le_uint bs) div 256 = le_uint bs"
    by simp_all
  with Cons show ?case by simp
qed

lemma write_f32_f32_of: "length bs = 4 \<Longrightarrow> write_f32 (f32_of bs) = bs"
proof -
  assume l: "length bs = 4"
  from le_uint_bounds [of bs] l have "0 \<le> le_uint bs" "le_uint bs < 2 ^ 32" by simp_all
  then have "uint (word_of_int (le_uint bs) :: 32 word) = le_uint bs"
    by (simp add: uint_word_of_int take_bit_eq_mod)
  with le_bytes_le_uint [of bs] l show ?thesis
    by (simp add: write_f32_def f32_of_def)
qed

lemma write_i32_signed_of:
  assumes "length bs = 4"
  shows "write_i32 (signed_of 32 (le_uint bs)) = Returns bs"
proof -
  from le_uint_bounds [of bs] assms have b: "0 \<le> le_uint bs" "le_uint bs < 2 ^ 32" by simp_all
  have "signed_of 32 (le_uint bs) mod 2 ^ 32 = le_uint bs"
    using b by (auto simp: signed_of_def)
  moreover have "- (2 ^ 31) \<le> signed_of 32 (le_uint bs) \<and> signed_of 32 (le_uint bs) < 2 ^ 31"
    using b by (auto simp: signed_of_def)
  ultimately show ?thesis
    using le_bytes_le_uint [of bs] assms by (simp add: write_i32_def)
qed

lemma write_vector3_f32_vector3_of:
  assumes "length bs = 12"
  shows "write_vector3_f32 (vector3_of bs) = bs"
proof -
  have "take 12 bs = take 4 bs @ take 4 (drop 4 bs) @ take 4 (drop 8 bs)"
    using take_add [of 4 8 bs] take_add [of 4 4 "drop 4 bs"] by simp
  with assms have "take 4 bs @ take 4 (drop 4 bs) @ take 4 (drop 8 bs) = bs" by simp
  then show ?thesis
    using assms
    by (simp add: write_vector3_f32_def vector3_of_def write_f32_f32_of)
qed

lemma write_vector4_f32_quaternion_of:
  assumes "length bs = 16"
  shows "write_vector4_f32 (quaternion_of bs) = bs"
proof -
  have "take 16 bs = take 4 bs @ take 4 (drop 4 bs) @ take 4 (drop 8 bs) @ take 4 (drop 12 bs)"
    using take_add [of 4 12 bs] take_add [of 4 8 "drop 4 bs"] take_add [of 4 4 "drop 8 bs"]
    by simp
  with assms have "take 4 bs @ take 4 (drop 4 bs) @ take 4 (drop 8 bs) @ take 4 (drop 12 bs) = bs"
    by simp
  then show ?thesis
    using assms
    by (simp add: write_vector4_f32_def quaternion_of_def write_f32_f32_of)
qed










lemma length_write_f32 [simp]: "length (write_f32 x) = 4"
  by (simp add: write_f32_def)




section \<open>Fixed-width strings on a short stream\<close>

text \<open>
  C10.  When fewer than \<open>n\<close> bytes remain, \<open>read_fstr(f, n)\<close> raises no truncation
  error (\<open>struct.error\<close>): its outcome is the decoding of the bytes that remain, with the
  stream left empty.
\<close>

theorem read_fstr_short_stream:
  "int (length f) < n \<Longrightarrow>
   read_fstr L f n = obind (decode L f) (\<lambda>s. Returns (s, []))
   \<and> read_fstr L f n \<noteq> Raises StructError"
  by (auto simp: read_fstr_def read_def decode_def split: option.splits)

theorem read_fstr_short_stream_witness:
  "int (length [0x5A, 0x4D, 0x44 :: byte]) < 7
   \<and> read_fstr ascii_ieee_lib [0x5A, 0x4D, 0x44] 7 = Returns ([90, 77, 68], [])
   \<and> read_fstr ascii_ieee_lib [0x5A, 0x4D, 0x44] 7 \<noteq> Raises StructError"
  using read_fstr_short_stream [of "[0x5A, 0x4D, 0x44]" 7 ascii_ieee_lib]
  by (simp add: decode_def ascii_ieee_lib_def ascii_decode_def)

section \<open>Null-terminated strings\<close>

text \<open>
  C8.  On a stream that ends before any zero byte, \<open>read_str\<close> does not fail: at the end
  of the file \<open>f.read(1)\<close> returns the empty byte string for ever and the loop never
  leaves.  Here the stream is the seven bytes of \<open>ZMS0007\<close> with no terminator.
\<close>

theorem read_str_unterminated_hangs:
  "read_str ascii_ieee_lib [0x5A, 0x4D, 0x53, 0x30, 0x30, 0x30, 0x37] = Hangs"
  by (rule read_str_no_terminator) simp

section \<open>The dummy count at the end of a skeleton file\<close>




section \<open>Rotation and the skeleton version\<close>




section \<open>Position and rotation of an animation channel\<close>

text \<open>
  C6.  When an animation with \<open>frame_count = 3\<close> has been decoded, every channel whose
  track type has both the POSITION and the ROTATION bit has three positions and no
  rotation: each frame runs the position branch, and the rotation branch is its
  \<open>elif\<close>.
\<close>

theorem position_excludes_rotation:
  assumes "AnimationData_load_data L bs = Returns anim"
    and "frame_count anim = 3"
  shows "\<forall>c \<in> set (channels anim). positions_enabled c \<and> rotations_enabled c \<longrightarrow>
    length (ChannelData.position c) = 3 \<and> ChannelData.rotation c = []"
proof -
  from assms(1) obtain s1 f1 s2 f2 f3 where
    a: "load_settings L AnimationData_init bs = Returns (s1, f1)"
    and b: "setup_channels s1 f1 = Returns (s2, f2)"
    and c: "load_channel_data L s2 f2 = Returns (anim, f3)"
    by (auto simp: AnimationData_load_data_def obind_Returns_iff)
  from a have c1: "channels s1 = []"
    by (auto simp: load_settings_def AnimationData_init_def obind_Returns_iff)
  from b obtain n g where
    sl: "setup_channels_loop n (channels s1) g = Returns (channels s2, f2)"
    and fc2: "frame_count s2 = frame_count s1"
    by (auto simp: setup_channels_def obind_Returns_iff)
  have fresh: "list_all (\<lambda>c. ChannelData.position c = [] \<and> ChannelData.rotation c = []) (channels s2)"
    by (rule setup_channels_loop_fresh [OF sl]) (simp add: c1)
  from c obtain a' where
    lf: "load_frames L (nat (frame_count s2)) (channels s2) None f2 = Returns (channels anim, a', f3)"
    and fc: "frame_count anim = frame_count s2"
    by (auto simp: load_channel_data_def obind_Returns_iff)
  from fc assms(2) have n3: "nat (frame_count s2) = 3" by simp
  from load_frames_inv [OF lf] n3 have
    len: "length (channels anim) = length (channels s2)"
    and st: "\<And>k. k < length (channels s2) \<Longrightarrow> frames_step 3 (channels s2 ! k) (channels anim ! k)"
    by simp_all
  show ?thesis
  proof (intro ballI impI)
    fix c assume "c \<in> set (channels anim)" and en: "positions_enabled c \<and> rotations_enabled c"
    then obtain k where k: "k < length (channels s2)" and ck: "c = channels anim ! k"
      using len by (auto simp: in_set_conv_nth)
    from fresh k have f0: "ChannelData.position (channels s2 ! k) = []"
      "ChannelData.rotation (channels s2 ! k) = []"
      by (simp_all add: list_all_length)
    from st [OF k] en ck f0 show "length (ChannelData.position c) = 3 \<and> ChannelData.rotation c = []"
      by (simp add: frames_step_def positions_enabled_def)
  qed
qed

theorem position_excludes_rotation_witness:
  "AnimationData_load_data ascii_ieee_lib zmo_position_rotation = Returns zmo_position_rotation_decoded
   \<and> frame_count zmo_position_rotation_decoded = 3
   \<and> positions_enabled (channels zmo_position_rotation_decoded ! 0)
   \<and> rotations_enabled (channels zmo_position_rotation_decoded ! 0)
   \<and> length (ChannelData.position (channels zmo_position_rotation_decoded ! 0)) = 3
   \<and> ChannelData.rotation (channels zmo_position_rotation_decoded ! 0) = []"
proof -
  have fc: "frame_count zmo_position_rotation_decoded = 3"
    by (simp add: zmo_position_rotation_decoded_def)
  have mem: "channels zmo_position_rotation_decoded ! 0 \<in> set (channels zmo_position_rotation_decoded)"
    by (simp add: zmo_position_rotation_decoded_def)
  have en: "positions_enabled (channels zmo_position_rotation_decoded ! 0)
      \<and> rotations_enabled (channels zmo_position_rotation_decoded ! 0)"
    by (simp add: zmo_position_rotation_decoded_def enabled_defs TrackType_POSITION_def
        TrackType_ROTATION_def)
  from position_excludes_rotation [OF zmo_position_rotation_eval fc, THEN bspec, OF mem, THEN mp, OF en]
    zmo_position_rotation_eval fc en
  show ?thesis by simp
qed

section \<open>Texture animation and scale of an animation channel\<close>

text \<open>
  C7.  A channel with the ALPHA, TEXTUREANIM and SCALE bits, one frame holding alpha
  \<open>1.0\<close>, texture animation \<open>2.0\<close> and scale \<open>3.0\<close>: the decoded texture-animation
  and scale sequences both hold \<open>1.0\<close>, the alpha, and not the values read for them.
  With the TEXTUREANIM bit alone the variable \<open>alpha\<close> is unbound when it is appended,
  and decoding raises.
\<close>

theorem texture_animation_appends_alpha:
  "AnimationData_load_data ascii_ieee_lib zmo_alpha_texture_scale = Returns
     \<lparr> AnimationData.format_code = [90, 77, 79, 48, 48, 48, 50, 0], fps = 30, frame_count = 1,
       channel_count = 1,
       channels = [\<lparr> ChannelData.identifier = 0, tracktype = 1552,
         ChannelData.position = [], rotation = [], ChannelData.normal = [], alpha = [0x3F800000],
         uv_1 = [], uv_2 = [], uv_3 = [], uv_4 = [],
         texture_animation = [0x3F800000], scale = [0x3F800000] \<rparr>] \<rparr>
   \<and> read_f32 [0, 0, 0, 0x40] = Returns (0x40000000, [])
   \<and> read_f32 [0, 0, 0x40, 0x40] = Returns (0x40400000, [])
   \<and> AnimationData_load_data ascii_ieee_lib zmo_texture_only = Raises UnboundLocalError"
  by (simp add: zmo_alpha_texture_scale_def zmo_texture_only_def eval_defs anim_eval_defs)

section \<open>A mesh with positions and second UV pairs only\<close>

text \<open>
  C9.  When a mesh whose format is \<open>258\<close> (the POSITION and UV2 bits and no other) has
  been decoded, the stream is a header, then twelve bytes of position for each vertex,
  then eight bytes of second UV pair for each vertex, then the rest; and vertex \<open>i\<close> is
  the default vertex with its position and \<open>uv_layers[1]\<close> taken from those bytes, every
  other attribute as \<open>Vertex()\<close> made it.
\<close>

theorem position_uv2_only:
  assumes "load L MeshImportData_init bs = Returns m" and "format m = 258"
  shows "\<exists>hdr pos uv rest. bs = hdr @ pos @ uv @ rest
     \<and> length pos = 12 * length (vertices m) \<and> length uv = 8 * length (vertices m)
     \<and> (\<forall>i < length (vertices m). vertices m ! i =
           Vertex_init\<lparr>Vertex.position := vector3_of (take 12 (drop (12 * i) pos)),
             uv_layers := [None, Some (vector2_of (take 8 (drop (8 * i) uv))), None, None]\<rparr>)"
proof -
  from assms(1) obtain m0 v r where
    ls: "load_sections L MeshImportData_init bs = Returns ((m0, v), r)"
    and mv: "vertices m = vertices m0" and mf: "format m = format m0"
    by (auto simp: load_def obind_Returns_iff split: if_splits outcome.splits)
  from ls obtain self0 vc f0 self1 f1 where
    h: "load_header L MeshImportData_init bs = Returns ((self0, v, vc), f0)"
    and a: "load_attributes vc self0 f0 = Returns (self1, f1)"
    and t: "load_tables self1 f1 = Returns (m0, r)"
    by (auto simp: load_sections_def obind_Returns_iff)
  from load_header_Returns [OF h] obtain hdr where
    hdr: "bs = hdr @ f0" and vs0: "vertices self0 = replicate (nat vc) Vertex_init"
    by (auto simp: MeshImportData_init_def)
  from load_header_format [OF a t] mf mv assms(2) have
    f258: "format self0 = 258" and mv1: "vertices m = vertices self1" by simp_all
  let ?n = "nat vc"
  from a obtain vs1 g1 vs2 where
    p1: "vertex_pass read_vector3_f32 (\<lambda>x v. v\<lparr>Vertex.position := x\<rparr>) ?n 0 (vertices self0) f0
      = Returns (vs1, g1)"
    and p2: "vertex_pass read_vector2_f32 (\<lambda>x v. v\<lparr>uv_layers := (uv_layers v)[1 := Some x]\<rparr>)
      ?n 0 vs1 g1 = Returns (vs2, f1)"
    and s1: "self1 = self0\<lparr>vertices := vs2\<rparr>"
    by (auto simp: load_attributes_position_uv2 [OF f258] obind_Returns_iff)
  from vertex_pass_exact [OF read_vector3_f32_eq p1] vs0 have
    l1: "length vs1 = ?n" and sz1: "12 * ?n \<le> length f0" and g1: "g1 = drop (12 * ?n) f0"
    and e1: "\<And>j. j < ?n \<Longrightarrow> vs1 ! j =
      Vertex_init\<lparr>Vertex.position := vector3_of (take 12 (drop (12 * j) f0))\<rparr>"
    by simp_all
  from vertex_pass_exact [OF read_vector2_f32_eq p2] l1 have
    l2: "length vs2 = ?n" and sz2: "8 * ?n \<le> length g1" and f1: "f1 = drop (8 * ?n) g1"
    and e2: "\<And>j. j < ?n \<Longrightarrow> vs2 ! j =
      (vs1 ! j)\<lparr>uv_layers := (uv_layers (vs1 ! j))[1 := Some (vector2_of (take 8 (drop (8 * j) g1)))]\<rparr>"
    by simp_all
  let ?pos = "take (12 * ?n) f0" and ?uv = "take (8 * ?n) g1"
  have vm: "vertices m = vs2" using mv1 s1 by simp
  have "f0 = ?pos @ g1" using g1 by simp
  moreover have "g1 = ?uv @ f1" using f1 by simp
  ultimately have bs: "bs = hdr @ ?pos @ ?uv @ f1"
    using hdr by simp
  have "vertices m ! i =
      Vertex_init\<lparr>Vertex.position := vector3_of (take 12 (drop (12 * i) ?pos)),
        uv_layers := [None, Some (vector2_of (take 8 (drop (8 * i) ?uv))), None, None]\<rparr>"
    if i: "i < length (vertices m)" for i
  proof -
    from i vm l2 have i': "i < ?n" by simp
    then have a: "12 + 12 * i \<le> 12 * ?n" and b: "8 + 8 * i \<le> 8 * ?n" by simp_all
    have tp: "take 12 (drop (12 * i) ?pos) = take 12 (drop (12 * i) f0)"
      using a by (simp add: drop_take min_def)
    have tu: "take 8 (drop (8 * i) ?uv) = take 8 (drop (8 * i) g1)"
      using b by (simp add: drop_take min_def)
    show ?thesis
      by (simp add: vm e2 [OF i'] e1 [OF i'] tp tu Vertex_init_def)
  qed
  moreover have "length ?pos = 12 * length (vertices m)" "length ?uv = 8 * length (vertices m)"
    using sz1 sz2 vm l2 by simp_all
  ultimately show ?thesis using bs by blast
qed

theorem position_uv2_only_witness:
  "load ascii_ieee_lib MeshImportData_init zms7_two_vertices = Returns zms7_two_vertices_decoded
   \<and> format zms7_two_vertices_decoded = 258
   \<and> (\<exists>hdr pos uv rest. zms7_two_vertices = hdr @ pos @ uv @ rest
        \<and> length pos = 24 \<and> length uv = 16
        \<and> vertices zms7_two_vertices_decoded ! 0 =
             Vertex_init\<lparr>Vertex.position := vector3_of (take 12 pos),
               uv_layers := [None, Some (vector2_of (take 8 uv)), None, None]\<rparr>
        \<and> vertices zms7_two_vertices_decoded ! 1 =
             Vertex_init\<lparr>Vertex.position := vector3_of (take 12 (drop 12 pos)),
               uv_layers := [None, Some (vector2_of (take 8 (drop 8 uv))), None, None]\<rparr>)"
proof -
  have f: "format zms7_two_vertices_decoded = 258"
    by (simp add: zms7_two_vertices_decoded_def)
  have n: "length (vertices zms7_two_vertices_decoded) = 2"
    by (simp add: zms7_two_vertices_decoded_def)
  from position_uv2_only [OF zms7_two_vertices_eval f] obtain hdr pos uv rest where
    a: "zms7_two_vertices = hdr @ pos @ uv @ rest"
    and b: "length pos = 12 * length (vertices zms7_two_vertices_decoded)"
      "length uv = 8 * length (vertices zms7_two_vertices_decoded)"
    and c: "\<And>i. i < length (vertices zms7_two_vertices_decoded) \<Longrightarrow>
      vertices zms7_two_vertices_decoded ! i =
        Vertex_init\<lparr>Vertex.position := vector3_of (take 12 (drop (12 * i) pos)),
          uv_layers := [None, Some (vector2_of (take 8 (drop (8 * i) uv))), None, None]\<rparr>"
    by blast
  from c [of 0] c [of 1] n have
    "vertices zms7_two_vertices_decoded ! 0 =
       Vertex_init\<lparr>Vertex.position := vector3_of (take 12 pos),
         uv_layers := [None, Some (vector2_of (take 8 uv)), None, None]\<rparr>"
    "vertices zms7_two_vertices_decoded ! 1 =
       Vertex_init\<lparr>Vertex.position := vector3_of (take 12 (drop 12 pos)),
         uv_layers := [None, Some (vector2_of (take 8 (drop 8 uv))), None, None]\<rparr>"
    by simp_all
  moreover from b n have "length pos = 24" "length uv = 16" by simp_all
  ultimately have "\<exists>hdr pos uv rest. zms7_two_vertices = hdr @ pos @ uv @ rest
        \<and> length pos = 24 \<and> length uv = 16
        \<and> vertices zms7_two_vertices_decoded ! 0 =
             Vertex_init\<lparr>Vertex.position := vector3_of (take 12 pos),
               uv_layers := [None, Some (vector2_of (take 8 uv)), None, None]\<rparr>
        \<and> vertices zms7_two_vertices_decoded ! 1 =
             Vertex_init\<lparr>Vertex.position := vector3_of (take 12 (drop 12 pos)),
               uv_layers := [None, Some (vector2_of (take 8 (drop 8 uv))), None, None]\<rparr>"
    using a by blast
  with f zms7_two_vertices_eval show ?thesis by blast
qed

section \<open>The pool field at the end of a mesh file\<close>

text \<open>
  C5, as stated, at a version-8 file cut after the first of the two pool bytes: the claim
  says the decode is fatal; the bare \<open>except:\<close> around the pool read swallows the short
  read, and the decode returns the mesh with the pool of the constructor, 0.
\<close>

theorem half_pool_counterexample:
  "load_sections ascii_ieee_lib MeshImportData_init zms8_half_pool
     = Returns ((zms8_empty_decoded, 8), [5])
   \<and> load ascii_ieee_lib MeshImportData_init zms8_half_pool = Returns zms8_empty_decoded
   \<and> pool zms8_empty_decoded = 0"
  by (simp add: zms8_half_pool_def zms8_empty_decoded_def eval_defs mesh_eval_defs)

text \<open>
  C5, amended.  Let the sections of a mesh file up to the strip table decode, leaving the
  stream \<open>r\<close> for the pool field.  With version 8 and fewer than two bytes left (none,
  or one) the decode succeeds and the pool keeps its initial value, 0 for a fresh mesh;
  with two bytes or more the pool is read from them.  With version 7 the decode
  succeeds whatever is left, and the pool is not read.  No file cut before the pool
  offset decodes.
\<close>

theorem pool_read_is_lenient:
  assumes "load_sections L self bs = Returns ((m, version), r)"
  shows "(8 \<le> version \<and> length r < 2 \<longrightarrow> load L self bs = Returns m \<and> pool m = pool self)
    \<and> (8 \<le> version \<and> 2 \<le> length r \<longrightarrow>
         load L self bs = Returns (m\<lparr>pool := signed_of 16 (le_uint (take 2 r))\<rparr>))
    \<and> (version < 8 \<longrightarrow> load L self bs = Returns m \<and> pool m = pool self)
    \<and> (\<forall>k < length bs - length r. \<forall>m'. load L self (take k bs) \<noteq> Returns m')"
proof -
  have p: "pool m = pool self" using assms by (rule load_sections_pool)
  have a: "8 \<le> version \<and> length r < 2 \<longrightarrow> load L self bs = Returns m"
    by (auto simp: load_def assms read_i16_eq)
  have b: "version < 8 \<longrightarrow> load L self bs = Returns m"
    by (simp add: load_def assms)
  have d: "8 \<le> version \<and> 2 \<le> length r \<longrightarrow>
      load L self bs = Returns (m\<lparr>pool := signed_of 16 (le_uint (take 2 r))\<rparr>)"
    by (auto simp: load_def assms read_i16_eq)
  have c: "load L self (take k bs) \<noteq> Returns m'" if k: "k < length bs - length r" for k m'
  proof
    assume "load L self (take k bs) = Returns m'"
    then obtain m0 v0 r0 where
      "load_sections L self (take k bs) = Returns ((m0, v0), r0)"
      by (auto simp: load_def obind_Returns_iff)
    from extendsD [OF extends_load_sections this, of "drop k bs"]
    have "load_sections L self bs = Returns ((m0, v0), r0 @ drop k bs)" by simp
    with assms have "r = r0 @ drop k bs" by simp
    then have "length bs - k \<le> length r" by simp
    with k show False by simp
  qed
  from p a b c d show ?thesis by blast
qed

theorem pool_read_is_lenient_witness:
  "load_sections ascii_ieee_lib MeshImportData_init zms8_half_pool
     = Returns ((zms8_empty_decoded, 8), [5])
   \<and> load ascii_ieee_lib MeshImportData_init zms8_half_pool = Returns zms8_empty_decoded
   \<and> pool zms8_empty_decoded = pool MeshImportData_init
   \<and> load ascii_ieee_lib MeshImportData_init (take 45 zms8_half_pool) \<noteq> Returns zms8_empty_decoded"
proof -
  note t = pool_read_is_lenient [OF zms8_half_pool_sections]
  have p: "(8 :: int) \<le> 8 \<and> length [5 :: byte] < 2" by simp
  have k: "45 < length zms8_half_pool - length [5 :: byte]"
    by (simp add: zms8_half_pool_def)
  from t [THEN conjunct1, THEN mp, OF p]
  have a: "load ascii_ieee_lib MeshImportData_init zms8_half_pool = Returns zms8_empty_decoded
    \<and> pool zms8_empty_decoded = pool MeshImportData_init" .
  from t [THEN conjunct2, THEN conjunct2, THEN conjunct2, THEN spec, THEN mp, OF k, THEN spec]
  have b: "load ascii_ieee_lib MeshImportData_init (take 45 zms8_half_pool)
      \<noteq> Returns zms8_empty_decoded" .
  from a b zms8_half_pool_sections show ?thesis by simp
qed

section \<open>Scaling of positions\<close>




end
